theory Spec2Isabelle
  imports Complex_Main "HOL-Library.Sublist"
begin

section \<open>Values shared by the two handlers\<close>

text \<open>
  The repository has two AWS Lambda handlers written in Python: \<^verbatim>\<open>src/ingest.py\<close>
  (the Ingest Normalizer) and \<^verbatim>\<open>src/worker.py\<close> (the Batch Processor). Both are
  called \<^verbatim>\<open>lambda_handler\<close> in the source; here they are \<open>ingest_lambda_handler\<close>
  and \<open>worker_lambda_handler\<close>.

  A Python \<^verbatim>\<open>str\<close> is modelled as a \<open>string\<close>: one \<open>char\<close> stands for one character,
  so \<open>length\<close> is Python's \<^verbatim>\<open>len\<close> and \<open>take 10\<close> is the slice \<^verbatim>\<open>[:10]\<close>.
\<close>

text \<open>What \<^verbatim>\<open>json.loads\<close> returns: \<^verbatim>\<open>None\<close>, a bool, an int, a float, a str, a list or
  a dict. A dict is the list of its items in insertion order, its keys distinct.\<close>

datatype json =
    JNull
  | JBool bool
  | JInt int
  | JFloat rat
  | JStr string
  | JArr "json list"
  | JObj "(string \<times> json) list"

text \<open>The exceptions the two handlers can meet. All of them are subclasses of Python's
  \<^verbatim>\<open>Exception\<close>, so every \<^verbatim>\<open>except Exception\<close> of the source catches each one.
  \<open>Base64Error\<close> is \<^verbatim>\<open>binascii.Error\<close>; \<open>ClientError\<close> stands for whatever the AWS
  client raises when a call to the queue or to the table fails.\<close>

datatype exn =
    JSONDecodeError
  | RecursionError
  | AttributeError
  | TypeError
  | Base64Error
  | UnicodeDecodeError
  | ClientError

text \<open>The library functions the handlers call, taken as parameters: \<^verbatim>\<open>json.loads\<close>
  (it raises \<^verbatim>\<open>JSONDecodeError\<close> on text that is not JSON),
  \<^verbatim>\<open>json.dumps\<close>, \<^verbatim>\<open>base64.b64decode(body).decode('utf-8')\<close> and \<^verbatim>\<open>str()\<close> of a list
  (what an f-string prints for it).\<close>

record pylib =
  json_loads :: "string \<Rightarrow> exn + json"
  json_dumps :: "json \<Rightarrow> string"
  b64decode_utf8 :: "string \<Rightarrow> exn + string"
  str_of :: "json \<Rightarrow> string"

text \<open>\<^verbatim>\<open>d.get(k, default)\<close> on a dict.\<close>

definition dict_get :: "(string \<times> json) list \<Rightarrow> string \<Rightarrow> json \<Rightarrow> json" where
  "dict_get d k dflt = (case map_of d k of None \<Rightarrow> dflt | Some v \<Rightarrow> v)"

text \<open>The canonical envelope (the \<^verbatim>\<open>message\<close> dict of \<^verbatim>\<open>ingest.py\<close>). Every field holds
  a JSON value: on the JSON path the handler copies whatever value the caller sent.\<close>

record envelope =
  tenant_id :: json
  log_id :: json
  original_text :: json
  source :: json

definition envelope_json :: "envelope \<Rightarrow> json" where
  "envelope_json m = JObj
     [(''tenant_id'', tenant_id m),
      (''log_id'', log_id m),
      (''original_text'', original_text m),
      (''source'', source m)]"


section \<open>The Ingest Normalizer (\<^verbatim>\<open>src/ingest.py\<close>)\<close>

text \<open>The event. A field is \<open>None\<close> when the key is absent from the event dict, which
  is when \<^verbatim>\<open>event.get\<close> returns its default. Header names and values are strings.\<close>

record event =
  headers :: "(string \<times> string) list option"
  body :: "string option"
  isBase64Encoded :: "bool option"

record response =
  statusCode :: nat
  response_body :: string

text \<open>The queue collaborator: the message bodies it holds, oldest first, and the
  number of \<^verbatim>\<open>send_message\<close> calls made so far (a call that raises counts as a call).\<close>

record sqs =
  queue :: "string list"
  send_calls :: nat

text \<open>\<^verbatim>\<open>str.lower()\<close> on ASCII text (HTTP header names are ASCII).\<close>

definition lower_char :: "char \<Rightarrow> char" where
  "lower_char c =
     (let n = (of_char c :: nat) in if 65 \<le> n \<and> n \<le> 90 then char_of (n + 32) else c)"

definition lower :: "string \<Rightarrow> string" where
  "lower s = map lower_char s"

text \<open>\<^verbatim>\<open>{k.lower(): v for k, v in items}\<close>: the items are inserted in order, a later one
  overwriting an earlier one with the same lower-cased name.\<close>

definition lower_keys :: "(string \<times> string) list \<Rightarrow> (string \<rightharpoonup> string)" where
  "lower_keys items = foldl (\<lambda>m (k, v). m(lower k \<mapsto> v)) Map.empty items"

definition headers_get :: "(string \<rightharpoonup> string) \<Rightarrow> string \<Rightarrow> string \<Rightarrow> string" where
  "headers_get h k dflt = (case h k of None \<Rightarrow> dflt | Some v \<Rightarrow> v)"

text \<open>How a block of the handler ends: it raises, it returns a response early, or it
  goes on with a value.\<close>

datatype 'a flow = Raise exn | Return response | Continue 'a

text \<open>Step 2 of the handler (lines 22-24): the body, decoded when the flag is set.\<close>

definition decode_body :: "pylib \<Rightarrow> event \<Rightarrow> exn + string" where
  "decode_body lib ev =
     (let b = (case body ev of None \<Rightarrow> [] | Some s \<Rightarrow> s) in
      if (case isBase64Encoded ev of None \<Rightarrow> False | Some f \<Rightarrow> f)
      then b64decode_utf8 lib b
      else Inr b)"

text \<open>Step 3 (lines 27-46). \<open>uuid\<close> is the value of \<^verbatim>\<open>str(uuid.uuid4())\<close> in this call.\<close>

text \<open>Scenario 1 (lines 28-37). \<^verbatim>\<open>data.get\<close> raises \<^verbatim>\<open>AttributeError\<close> when \<^verbatim>\<open>data\<close> is
  not a dict; the inner \<^verbatim>\<open>except\<close> catches \<^verbatim>\<open>JSONDecodeError\<close> only.\<close>

definition json_scenario :: "pylib \<Rightarrow> string \<Rightarrow> string \<Rightarrow> envelope flow" where
  "json_scenario lib uuid b =
     (case json_loads lib b of
        Inl e \<Rightarrow>
          if e = JSONDecodeError
          then Return \<lparr>statusCode = 400, response_body = ''Invalid JSON''\<rparr>
          else Raise e
      | Inr data \<Rightarrow>
          (case data of
             JObj d \<Rightarrow>
               Continue
                 \<lparr>tenant_id = dict_get d ''tenant_id'' (JStr ''unknown''),
                  log_id = (case map_of d ''log_id'' of None \<Rightarrow> JStr uuid | Some l \<Rightarrow> l),
                  original_text = dict_get d ''text'' (JStr []),
                  source = JStr ''json_upload''\<rparr>
           | _ \<Rightarrow> Raise AttributeError))"

text \<open>Scenario 2 (lines 40-43).\<close>

definition text_scenario :: "string \<Rightarrow> (string \<rightharpoonup> string) \<Rightarrow> string \<Rightarrow> envelope flow" where
  "text_scenario uuid hdrs b =
     Continue
       \<lparr>tenant_id = JStr (headers_get hdrs ''x-tenant-id'' ''unknown''),
        log_id = JStr uuid,
        original_text = JStr b,
        source = JStr ''text_upload''\<rparr>"

text \<open>The \<^verbatim>\<open>if\<close>/\<^verbatim>\<open>elif\<close>/\<^verbatim>\<open>else\<close> of lines 27-46; \<^verbatim>\<open>x in s\<close> on strings is \<open>sublist x s\<close>.\<close>

definition scenario ::
  "pylib \<Rightarrow> string \<Rightarrow> (string \<rightharpoonup> string) \<Rightarrow> string \<Rightarrow> envelope flow" where
  "scenario lib uuid hdrs b =
     (let content_type = headers_get hdrs ''content-type'' [] in
      if sublist ''application/json'' content_type then json_scenario lib uuid b
      else if sublist ''text/plain'' content_type then text_scenario uuid hdrs b
      else Return \<lparr>statusCode = 400, response_body = ''Unsupported Content-Type''\<rparr>)"

text \<open>Step 5 (lines 57-60): \<^verbatim>\<open>sqs.send_message\<close>. \<open>send_fails q m\<close> says whether the
  call raises for the message \<open>m\<close> when the queue is in state \<open>q\<close>; a call that raises
  leaves the queue's messages as they were.\<close>

definition send_message :: "(sqs \<Rightarrow> string \<Rightarrow> bool) \<Rightarrow> sqs \<Rightarrow> string \<Rightarrow> (exn + unit) \<times> sqs" where
  "send_message send_fails q m =
     (if send_fails q m
      then (Inl ClientError, q\<lparr>send_calls := send_calls q + 1\<rparr>)
      else (Inr (), q\<lparr>queue := queue q @ [m], send_calls := send_calls q + 1\<rparr>))"

text \<open>The body of the outer \<^verbatim>\<open>try\<close> (lines 12-65).\<close>

definition ingest_try ::
  "pylib \<Rightarrow> string \<Rightarrow> (sqs \<Rightarrow> string \<Rightarrow> bool) \<Rightarrow> event \<Rightarrow> sqs \<Rightarrow> (exn + response) \<times> sqs" where
  "ingest_try lib uuid send_fails ev q =
     (let hdrs = lower_keys (case headers ev of None \<Rightarrow> [] | Some h \<Rightarrow> h) in
      case decode_body lib ev of
        Inl e \<Rightarrow> (Inl e, q)
      | Inr b \<Rightarrow>
          (case scenario lib uuid hdrs b of
             Raise e \<Rightarrow> (Inl e, q)
           | Return r \<Rightarrow> (Inr r, q)
           | Continue message \<Rightarrow>
               (case send_message send_fails q (json_dumps lib (envelope_json message)) of
                  (Inl e, q') \<Rightarrow> (Inl e, q')
                | (Inr _, q') \<Rightarrow>
                    (Inr \<lparr>statusCode = 202,
                          response_body = json_dumps lib
                            (JObj [(''status'', JStr ''accepted''), (''id'', log_id message)])\<rparr>,
                     q'))))"

text \<open>The handler: the outer \<^verbatim>\<open>except Exception\<close> (lines 67-69) turns every exception
  into the response 500.\<close>

definition ingest_lambda_handler ::
  "pylib \<Rightarrow> string \<Rightarrow> (sqs \<Rightarrow> string \<Rightarrow> bool) \<Rightarrow> event \<Rightarrow> sqs \<Rightarrow> response \<times> sqs" where
  "ingest_lambda_handler lib uuid send_fails ev q =
     (case ingest_try lib uuid send_fails ev q of
        (Inl e, q') \<Rightarrow> (\<lparr>statusCode = 500, response_body = ''Internal Server Error''\<rparr>, q')
      | (Inr r, q') \<Rightarrow> (r, q'))"

section \<open>The Batch Processor (\<^verbatim>\<open>src/worker.py\<close>)\<close>

text \<open>One delivered message: \<^verbatim>\<open>record['messageId']\<close> and \<^verbatim>\<open>record['body']\<close>.\<close>

record sqs_record =
  messageId :: string
  record_body :: string

text \<open>The \<^verbatim>\<open>item\<close> dict written to the table: the envelope's four fields, with
  \<^verbatim>\<open>modified_data\<close> and \<^verbatim>\<open>processed_at\<close>.\<close>

record item = envelope +
  modified_data :: string
  processed_at :: string

text \<open>What the handler acts on. \<open>table\<close> is the store; \<open>writes\<close> lists the items of the
  \<^verbatim>\<open>put_item\<close> calls that succeeded, oldest first; \<open>sleeps\<close> lists the arguments of the
  \<^verbatim>\<open>time.sleep\<close> calls, in seconds, oldest first; \<open>clock\<close> counts the readings of
  \<^verbatim>\<open>datetime.utcnow()\<close>.

  A duration is the exact value, a rational, of the Python number passed to
  \<^verbatim>\<open>time.sleep\<close>: a binary64 float, or the integer 800.\<close>

record world =
  table :: "(json \<times> json) \<rightharpoonup> item"
  writes :: "item list"
  sleeps :: "rat list"
  clock :: nat

text \<open>The collaborators of the worker: \<open>utcnow n\<close> is
  \<^verbatim>\<open>datetime.utcnow().isoformat()\<close> at the \<open>n\<close>-th reading of the clock, and
  \<open>put_fails w i\<close> says whether \<^verbatim>\<open>table.put_item(Item=i)\<close> raises in the world \<open>w\<close>.\<close>

record collaborators =
  utcnow :: "nat \<Rightarrow> string"
  put_fails :: "world \<Rightarrow> item \<Rightarrow> bool"

text \<open>\<^verbatim>\<open>len(text)\<close>: defined on a str, a list and a dict; a \<^verbatim>\<open>TypeError\<close> on \<^verbatim>\<open>None\<close>, a
  bool and a number.\<close>

fun py_len :: "json \<Rightarrow> exn + nat" where
  "py_len (JStr s) = Inr (length s)"
| "py_len (JArr xs) = Inr (length xs)"
| "py_len (JObj d) = Inr (length d)"
| "py_len _ = Inl TypeError"

text \<open>\<^verbatim>\<open>f"{text[:10]}"\<close>, reached only when \<^verbatim>\<open>len(text)\<close> is defined: the first ten
  characters of a str, the printed form of the first ten elements of a list; slicing a
  dict raises (\<^verbatim>\<open>TypeError\<close> up to Python 3.11, \<^verbatim>\<open>KeyError\<close> after; one constructor
  stands for both).\<close>

fun preview :: "pylib \<Rightarrow> json \<Rightarrow> exn + string" where
  "preview lib (JStr s) = Inr (take 10 s)"
| "preview lib (JArr xs) = Inr (str_of lib (JArr (take 10 xs)))"
| "preview lib _ = Inl TypeError"

text \<open>Binary64 arithmetic, as far as line 27 needs it. \<open>bit_length\<close> is Python's
  \<^verbatim>\<open>int.bit_length\<close>. \<open>round53 p\<close> is the natural number nearest to \<open>p\<close> among those with
  at most 53 significant bits, a tie going to the one whose significand is even: the
  rounding of IEEE 754 (round to nearest, ties to even) on a number that neither
  overflows nor is subnormal.\<close>

fun bit_length :: "nat \<Rightarrow> nat" where
  "bit_length n = (if n = 0 then 0 else Suc (bit_length (n div 2)))"

declare bit_length.simps [simp del]

definition round53 :: "nat \<Rightarrow> nat" where
  "round53 p =
     (let l = bit_length p in
      if l \<le> 53 then p
      else
        (let s = l - 53; q = p div 2 ^ s; r = p mod 2 ^ s; half = 2 ^ (s - 1) in
         (if r < half \<or> (r = half \<and> even q) then q else q + 1) * 2 ^ s))"

text \<open>\<^verbatim>\<open>len(text) * 0.05\<close> (line 27), for \<^verbatim>\<open>len(text)\<close> = \<open>n\<close>. The literal \<^verbatim>\<open>0.05\<close> is the
  binary64 number \<open>3602879701896397 / 2 ^ 56\<close>. Python converts the integer \<open>n\<close> to
  binary64 (\<open>round53 n\<close>, which is \<open>n\<close> itself below \<open>2 ^ 53\<close>) and multiplies: the result is
  the exact product of the two, rounded. A length is less than \<open>2 ^ 63\<close>, so nothing
  overflows.\<close>

definition len_times_unit_cost :: "nat \<Rightarrow> rat" where
  "len_times_unit_cost n = of_nat (round53 (round53 n * 3602879701896397)) / 2 ^ 56"

text \<open>Lines 27-32: the simulated cost, capped.\<close>

definition sleep_time :: "nat \<Rightarrow> rat" where
  "sleep_time n = (let t = len_times_unit_cost n in if t > 800 then 800 else t)"

text \<open>Modelled from the spec: the store collaborator (a DynamoDB table, not part of the
  repository) and its key schema. The spec gives \<^verbatim>\<open>upsert(key=(tenant_id, log_id), record)\<close>
  with overwrite semantics: a write that succeeds inserts the item if the key is absent
  and overwrites the item of that key otherwise.\<close>

definition item_key :: "item \<Rightarrow> json \<times> json" where
  "item_key i = (tenant_id i, log_id i)"

definition put_item :: "collaborators \<Rightarrow> world \<Rightarrow> item \<Rightarrow> world \<times> exn option" where
  "put_item co w i =
     (if put_fails co w i then (w, Some ClientError)
      else (w\<lparr>table := (table w)(item_key i \<mapsto> i), writes := writes w @ [i]\<rparr>, None))"

text \<open>The body of the \<^verbatim>\<open>try\<close> for one record (lines 17-46): the world it leaves, and
  the exception it raised, if any. \<^verbatim>\<open>body.get\<close> raises \<^verbatim>\<open>AttributeError\<close> when the parsed
  body is not a dict. The \<^verbatim>\<open>print\<close> calls are left out.\<close>

definition process_record ::
  "pylib \<Rightarrow> collaborators \<Rightarrow> world \<Rightarrow> sqs_record \<Rightarrow> world \<times> exn option" where
  "process_record lib co w r =
     (case json_loads lib (record_body r) of
        Inl e \<Rightarrow> (w, Some e)
      | Inr b \<Rightarrow>
          (case b of
             JObj d \<Rightarrow>
               (let tenant = dict_get d ''tenant_id'' JNull;
                    lid = dict_get d ''log_id'' JNull;
                    txt = dict_get d ''original_text'' (JStr [])
                in case py_len txt of
                     Inl e \<Rightarrow> (w, Some e)
                   | Inr n \<Rightarrow>
                       (let w1 = w\<lparr>sleeps := sleeps w @ [sleep_time n]\<rparr>
                        in case preview lib txt of
                             Inl e \<Rightarrow> (w1, Some e)
                           | Inr p \<Rightarrow>
                               put_item co (w1\<lparr>clock := clock w1 + 1\<rparr>)
                                 \<lparr>tenant_id = tenant,
                                  log_id = lid,
                                  original_text = txt,
                                  source = dict_get d ''source'' JNull,
                                  modified_data = p @ ''... [REDACTED]'',
                                  processed_at = utcnow co (clock w1)\<rparr>))
           | _ \<Rightarrow> (w, Some AttributeError)))"

text \<open>One turn of the loop (lines 15-52): a record whose \<^verbatim>\<open>try\<close> raised has its
  \<^verbatim>\<open>messageId\<close> appended to \<^verbatim>\<open>batch_item_failures\<close>.\<close>

definition loop_step ::
  "pylib \<Rightarrow> collaborators \<Rightarrow> world \<times> string list \<Rightarrow> sqs_record \<Rightarrow> world \<times> string list" where
  "loop_step lib co st r =
     (case process_record lib co (fst st) r of
        (w', None) \<Rightarrow> (w', snd st)
      | (w', Some e) \<Rightarrow> (w', snd st @ [messageId r]))"

text \<open>The handler: the world after the batch and the list \<^verbatim>\<open>batchItemFailures\<close>, each
  entry given by its \<^verbatim>\<open>itemIdentifier\<close>.\<close>

definition worker_lambda_handler ::
  "pylib \<Rightarrow> collaborators \<Rightarrow> world \<Rightarrow> sqs_record list \<Rightarrow> world \<times> string list" where
  "worker_lambda_handler lib co w records = foldl (loop_step lib co) (w, []) records"


section \<open>Notions used to state the properties\<close>

text \<open>The value of the \<^verbatim>\<open>content-type\<close> header as the handler reads it (line 14).\<close>

definition declared_content_type :: "event \<Rightarrow> string" where
  "declared_content_type ev =
     headers_get (lower_keys (case headers ev of None \<Rightarrow> [] | Some h \<Rightarrow> h)) ''content-type'' []"

text \<open>A case-insensitive header lookup, stated on the caller's header list: the value
  of the last header whose name, in lower case, is \<open>name\<close>.\<close>

definition header_ci :: "(string \<times> string) list \<Rightarrow> string \<Rightarrow> string option" where
  "header_ci hs name = map_of (rev (map (\<lambda>(k, v). (lower k, v)) hs)) name"

text \<open>The worlds in which the records of a batch are reached, one per record.\<close>

fun worlds :: "pylib \<Rightarrow> collaborators \<Rightarrow> world \<Rightarrow> sqs_record list \<Rightarrow> world list" where
  "worlds lib co w [] = []"
| "worlds lib co w (r # rs) = w # worlds lib co (fst (process_record lib co w r)) rs"

text \<open>The processing of \<open>r\<close> fails in the world \<open>w\<close>: its \<^verbatim>\<open>try\<close> raises.\<close>

definition record_fails :: "pylib \<Rightarrow> collaborators \<Rightarrow> world \<Rightarrow> sqs_record \<Rightarrow> bool" where
  "record_fails lib co w r = (snd (process_record lib co w r) \<noteq> None)"

text \<open>A valid message: one whose processing succeeds in whatever world it is reached.\<close>

definition valid_message :: "pylib \<Rightarrow> collaborators \<Rightarrow> sqs_record \<Rightarrow> bool" where
  "valid_message lib co r = (\<forall>w. \<not> record_fails lib co w r)"

text \<open>The \<^verbatim>\<open>time.sleep\<close> calls the record \<open>r\<close> causes: one, when its body is an envelope
  whose text has a length, and none otherwise.\<close>

definition blocking_of :: "pylib \<Rightarrow> sqs_record \<Rightarrow> rat list" where
  "blocking_of lib r =
     (case json_loads lib (record_body r) of
        Inl e \<Rightarrow> []
      | Inr b \<Rightarrow>
          (case b of
             JObj d \<Rightarrow>
               (case py_len (dict_get d ''original_text'' (JStr [])) of
                  Inl e \<Rightarrow> []
                | Inr n \<Rightarrow> [sleep_time n])
           | _ \<Rightarrow> []))"

text \<open>The store key of an envelope, as lines 19-20 read it from the parsed body.\<close>

definition envelope_key :: "(string \<times> json) list \<Rightarrow> json \<times> json" where
  "envelope_key d = (dict_get d ''tenant_id'' JNull, dict_get d ''log_id'' JNull)"


section \<open>Test doubles\<close>

text \<open>Stand-ins for the library and the collaborators, used to run the handlers on
  concrete inputs. \<open>demo_dumps\<close> prints the way \<^verbatim>\<open>json.dumps\<close> does by default, for
  strings without escapes (numbers are not needed).\<close>

fun join :: "string \<Rightarrow> string list \<Rightarrow> string" where
  "join sep [] = []"
| "join sep [x] = x"
| "join sep (x # y # ys) = x @ sep @ join sep (y # ys)"

fun demo_dumps :: "json \<Rightarrow> string" where
  "demo_dumps JNull = ''null''"
| "demo_dumps (JBool b) = (if b then ''true'' else ''false'')"
| "demo_dumps (JInt n) = ''0''"
| "demo_dumps (JFloat x) = ''0.0''"
| \<open>demo_dumps (JStr s) = ''"'' @ s @ ''"''\<close>
| "demo_dumps (JArr xs) = ''['' @ join '', '' (map demo_dumps xs) @ '']''"
| \<open>demo_dumps (JObj d) =
     ''{'' @ join '', '' (map (\<lambda>(k, v). ''"'' @ k @ ''": '' @ demo_dumps v) d) @ ''}''\<close>

text \<open>A body whose text is 20000 characters long.\<close>

definition long_body :: string where
  \<open>long_body = ''{"original_text": "'' @ replicate 20000 (CHR ''a'') @ ''"}''\<close>

definition demo_loads :: "string \<Rightarrow> exn + json" where
  \<open>demo_loads s =
     (if s = ''{"tenant_id":"acme","text":"hello","log_id":"abc"}'' then
        Inr (JObj [(''tenant_id'', JStr ''acme''), (''text'', JStr ''hello''),
                   (''log_id'', JStr ''abc'')])
      else if s = ''{"tenant_id":"acme","text":"hello"}'' then
        Inr (JObj [(''tenant_id'', JStr ''acme''), (''text'', JStr ''hello'')])
      else if s = ''[1, 2]'' then Inr (JArr [JInt 1, JInt 2])
      else if s = ''{"tenant_id": "acme", "log_id": "abc", "original_text": "hello", "source": "json_upload"}'' then
        Inr (JObj [(''tenant_id'', JStr ''acme''), (''log_id'', JStr ''abc''),
                   (''original_text'', JStr ''hello''), (''source'', JStr ''json_upload'')])
      else if s = ''{"tenant_id": "beta", "log_id": "u-1", "original_text": "hi there", "source": "text_upload"}'' then
        Inr (JObj [(''tenant_id'', JStr ''beta''), (''log_id'', JStr ''u-1''),
                   (''original_text'', JStr ''hi there''), (''source'', JStr ''text_upload'')])
      else Inl JSONDecodeError)\<close>

definition demo_b64decode_utf8 :: "string \<Rightarrow> exn + string" where
  "demo_b64decode_utf8 s = (if s = ''aGkgdGhlcmU='' then Inr ''hi there'' else Inl Base64Error)"

definition long_loads :: "string \<Rightarrow> exn + json" where
  "long_loads s =
     (if s = long_body then Inr (JObj [(''original_text'', JStr (replicate 20000 (CHR ''a'')))])
      else Inl JSONDecodeError)"

definition demo_lib :: pylib where
  "demo_lib =
     \<lparr>json_loads = demo_loads,
      json_dumps = demo_dumps,
      b64decode_utf8 = demo_b64decode_utf8,
      str_of = demo_dumps\<rparr>"

definition long_lib :: pylib where
  "long_lib = demo_lib\<lparr>json_loads := long_loads\<rparr>"

text \<open>The value of \<^verbatim>\<open>str(uuid.uuid4())\<close> in the runs below.\<close>

definition demo_uuid :: string where
  "demo_uuid = ''123e4567-e89b-42d3-a456-426614174000''"

text \<open>The two example submissions of the spec, with the caller's casing of the header
  names, and submissions that exercise the other paths.\<close>

definition json_event :: event where
  \<open>json_event =
     \<lparr>headers = Some [(''Content-Type'', ''application/json'')],
      body = Some ''{"tenant_id":"acme","text":"hello","log_id":"abc"}'',
      isBase64Encoded = None\<rparr>\<close>

definition text_event :: event where
  "text_event =
     \<lparr>headers = Some [(''Content-Type'', ''text/plain''), (''X-Tenant-Id'', ''beta'')],
      body = Some ''hi there'',
      isBase64Encoded = None\<rparr>"

definition charset_event :: event where
  \<open>charset_event =
     \<lparr>headers = Some [(''content-type'', ''application/json; charset=utf-8'')],
      body = Some ''{"tenant_id":"acme","text":"hello"}'',
      isBase64Encoded = None\<rparr>\<close>

definition both_types_event :: event where
  \<open>both_types_event =
     \<lparr>headers = Some [(''content-type'', ''text/plain, application/json'')],
      body = Some ''{"tenant_id":"acme","text":"hello"}'',
      isBase64Encoded = None\<rparr>\<close>

definition no_type_event :: event where
  "no_type_event =
     \<lparr>headers = Some [(''X-Tenant-Id'', ''beta'')],
      body = Some ''hi there'',
      isBase64Encoded = None\<rparr>"

definition array_event :: event where
  "array_event =
     \<lparr>headers = Some [(''Content-Type'', ''application/json'')],
      body = Some ''[1, 2]'',
      isBase64Encoded = None\<rparr>"

definition garbage_event :: event where
  "garbage_event =
     \<lparr>headers = Some [(''Content-Type'', ''application/json'')],
      body = Some ''%%%not base64%%%'',
      isBase64Encoded = Some True\<rparr>"

definition empty_sqs :: sqs where
  "empty_sqs = \<lparr>queue = [], send_calls = 0\<rparr>"

definition queue_up :: "sqs \<Rightarrow> string \<Rightarrow> bool" where
  "queue_up q m = False"

definition queue_down :: "sqs \<Rightarrow> string \<Rightarrow> bool" where
  "queue_down q m = True"

definition demo_co :: collaborators where
  "demo_co =
     \<lparr>utcnow = (\<lambda>n. ''2024-01-01T00:00:0'' @ (if n = 0 then ''0'' else if n = 1 then ''1'' else ''2'')),
      put_fails = (\<lambda>w i. False)\<rparr>"

definition empty_world :: world where
  "empty_world = \<lparr>table = Map.empty, writes = [], sleeps = [], clock = 0\<rparr>"

text \<open>Delivered messages: one whose body is cut off, the two envelopes of the spec's
  examples, a second delivery of the first envelope, and the long one.\<close>

definition bad_record :: sqs_record where
  \<open>bad_record = \<lparr>messageId = ''m-1'', record_body = ''{"tenant_id": "ac''\<rparr>\<close>

definition acme_record :: sqs_record where
  \<open>acme_record =
     \<lparr>messageId = ''m-2'',
      record_body = ''{"tenant_id": "acme", "log_id": "abc", "original_text": "hello", "source": "json_upload"}''\<rparr>\<close>

definition beta_record :: sqs_record where
  \<open>beta_record =
     \<lparr>messageId = ''m-3'',
      record_body = ''{"tenant_id": "beta", "log_id": "u-1", "original_text": "hi there", "source": "text_upload"}''\<rparr>\<close>

definition acme_redelivered :: sqs_record where
  "acme_redelivered = acme_record\<lparr>messageId := ''m-4''\<rparr>"

definition long_record :: sqs_record where
  "long_record = \<lparr>messageId = ''m-5'', record_body = long_body\<rparr>"


section \<open>Properties\<close>


lemma lower_keys_foldl:
  "foldl (\<lambda>m (k, v). m(lower k \<mapsto> v)) m0 hs =
     m0 ++ map_of (rev (map (\<lambda>(k, v). (lower k, v)) hs))"
  by (induction hs arbitrary: m0) (auto simp: map_add_def fun_eq_iff split: option.splits)

lemma lower_keys_header_ci: "lower_keys hs = header_ci hs"
  by (rule ext) (simp add: lower_keys_def header_ci_def lower_keys_foldl)

lemma ingest_decode_raises:
  "decode_body lib ev = Inl e \<Longrightarrow>
   ingest_lambda_handler lib uuid send_fails ev q =
     (\<lparr>statusCode = 500, response_body = ''Internal Server Error''\<rparr>, q)"
  by (simp add: ingest_lambda_handler_def ingest_try_def)

lemma ingest_after_decode:
  "decode_body lib ev = Inr b \<Longrightarrow>
   ingest_lambda_handler lib uuid send_fails ev q =
     (case scenario lib uuid (lower_keys (case headers ev of None \<Rightarrow> [] | Some h \<Rightarrow> h)) b of
        Raise e \<Rightarrow> (\<lparr>statusCode = 500, response_body = ''Internal Server Error''\<rparr>, q)
      | Return r \<Rightarrow> (r, q)
      | Continue m \<Rightarrow>
          (if send_fails q (json_dumps lib (envelope_json m))
           then (\<lparr>statusCode = 500, response_body = ''Internal Server Error''\<rparr>,
                 q\<lparr>send_calls := send_calls q + 1\<rparr>)
           else (\<lparr>statusCode = 202,
                  response_body = json_dumps lib
                    (JObj [(''status'', JStr ''accepted''), (''id'', log_id m)])\<rparr>,
                 q\<lparr>queue := queue q @ [json_dumps lib (envelope_json m)],
                   send_calls := send_calls q + 1\<rparr>)))"
  by (simp add: ingest_lambda_handler_def ingest_try_def send_message_def split: flow.splits)

lemma scenario_outcomes:
  "scenario lib uuid hdrs b = Return r \<Longrightarrow> statusCode r = 400"
  by (auto simp: scenario_def json_scenario_def text_scenario_def Let_def
           split: if_splits sum.splits json.splits)

lemma header_ci_recase:
  "map (\<lambda>(k, v). (lower k, v)) hs = map (\<lambda>(k, v). (lower k, v)) hs' \<Longrightarrow>
   header_ci hs = header_ci hs'"
  by (rule ext) (simp add: header_ci_def)

lemma ingest_headers_only_lower:
  assumes "map (\<lambda>(k, v). (lower k, v)) hs = map (\<lambda>(k, v). (lower k, v)) hs'"
  shows "ingest_lambda_handler lib uuid send_fails (ev\<lparr>headers := Some hs\<rparr>) q =
         ingest_lambda_handler lib uuid send_fails (ev\<lparr>headers := Some hs'\<rparr>) q"
  using header_ci_recase [OF assms]
  by (simp add: ingest_lambda_handler_def ingest_try_def decode_body_def lower_keys_header_ci)

text \<open>The runs of the handler on the example submissions.\<close>

lemma run_json_event:
  \<open>ingest_lambda_handler demo_lib demo_uuid queue_up json_event empty_sqs =
     (\<lparr>statusCode = 202, response_body = ''{"status": "accepted", "id": "abc"}''\<rparr>,
      \<lparr>queue = [''{"tenant_id": "acme", "log_id": "abc", "original_text": "hello", "source": "json_upload"}''],
       send_calls = 1\<rparr>)\<close>
  by code_simp

lemma run_text_event:
  \<open>ingest_lambda_handler demo_lib demo_uuid queue_up text_event empty_sqs =
     (\<lparr>statusCode = 202,
       response_body = ''{"status": "accepted", "id": "123e4567-e89b-42d3-a456-426614174000"}''\<rparr>,
      \<lparr>queue = [''{"tenant_id": "beta", "log_id": "123e4567-e89b-42d3-a456-426614174000", "original_text": "hi there", "source": "text_upload"}''],
       send_calls = 1\<rparr>)\<close>
  by code_simp

lemma run_text_event_queue_down:
  "ingest_lambda_handler demo_lib demo_uuid queue_down text_event empty_sqs =
     (\<lparr>statusCode = 500, response_body = ''Internal Server Error''\<rparr>,
      \<lparr>queue = [], send_calls = 1\<rparr>)"
  by code_simp

lemma run_charset_event:
  \<open>ingest_lambda_handler demo_lib demo_uuid queue_up charset_event empty_sqs =
     (\<lparr>statusCode = 202,
       response_body = ''{"status": "accepted", "id": "123e4567-e89b-42d3-a456-426614174000"}''\<rparr>,
      \<lparr>queue = [''{"tenant_id": "acme", "log_id": "123e4567-e89b-42d3-a456-426614174000", "original_text": "hello", "source": "json_upload"}''],
       send_calls = 1\<rparr>)\<close>
  by code_simp

lemma run_no_type_event:
  "ingest_lambda_handler demo_lib demo_uuid queue_up no_type_event empty_sqs =
     (\<lparr>statusCode = 400, response_body = ''Unsupported Content-Type''\<rparr>, empty_sqs)"
  by code_simp

lemma run_array_event:
  "ingest_lambda_handler demo_lib demo_uuid queue_up array_event empty_sqs =
     (\<lparr>statusCode = 500, response_body = ''Internal Server Error''\<rparr>, empty_sqs)"
  by code_simp

lemma run_garbage_event:
  "ingest_lambda_handler demo_lib demo_uuid queue_up garbage_event empty_sqs =
     (\<lparr>statusCode = 500, response_body = ''Internal Server Error''\<rparr>, empty_sqs)"
  by code_simp


subsection \<open>Ingest: a body that cannot be decoded\<close>

text \<open>
  Claim C4, as the code has it. When the event is flagged as base64-encoded and
  \<^verbatim>\<open>base64.b64decode(body).decode('utf-8')\<close> raises, no \<^verbatim>\<open>except\<close> of the handler but the
  outermost one catches the exception: the response is 500 \<^verbatim>\<open>Internal Server Error\<close>
  (not a response of the 400 class), whatever the headers say, and the queue is left as
  it was: no call to \<^verbatim>\<open>send_message\<close>, nothing enqueued. The body never reaches the
  classification by content type.
\<close>

theorem undecodable_body_fails_request:
  assumes "isBase64Encoded ev = Some True"
      and "b64decode_utf8 lib (case body ev of None \<Rightarrow> [] | Some s \<Rightarrow> s) = Inl e"
  shows "ingest_lambda_handler lib uuid send_fails ev q =
           (\<lparr>statusCode = 500, response_body = ''Internal Server Error''\<rparr>, q)"
proof -
  from assms have "decode_body lib ev = Inl e"
    by (simp add: decode_body_def)
  then show ?thesis
    by (rule ingest_decode_raises)
qed

theorem undecodable_body_fails_request_witness:
  "isBase64Encoded garbage_event = Some True
   \<and> b64decode_utf8 demo_lib (case body garbage_event of None \<Rightarrow> [] | Some s \<Rightarrow> s) =
       Inl Base64Error
   \<and> ingest_lambda_handler demo_lib demo_uuid queue_up garbage_event empty_sqs =
       (\<lparr>statusCode = 500, response_body = ''Internal Server Error''\<rparr>, empty_sqs)"
proof -
  have a: "isBase64Encoded garbage_event = Some True"
    by (simp add: garbage_event_def)
  have b: "b64decode_utf8 demo_lib (case body garbage_event of None \<Rightarrow> [] | Some s \<Rightarrow> s) =
       Inl Base64Error"
    by (simp add: garbage_event_def demo_lib_def demo_b64decode_utf8_def)
  from a b undecodable_body_fails_request [OF a b, of demo_uuid queue_up empty_sqs]
  show ?thesis
    by simp
qed

text \<open>
  Claim C4 as stated asks for a response of the 400 class. On this input, a body that is
  not base64 under the flag, the status is 500.
\<close>

theorem undecodable_body_is_server_error:
  "statusCode (fst (ingest_lambda_handler demo_lib demo_uuid queue_up garbage_event empty_sqs))
     = 500
   \<and> \<not> (400 \<le> statusCode
            (fst (ingest_lambda_handler demo_lib demo_uuid queue_up garbage_event empty_sqs))
        \<and> statusCode
            (fst (ingest_lambda_handler demo_lib demo_uuid queue_up garbage_event empty_sqs))
          < 500)"
  by (simp add: run_garbage_event)


subsection \<open>Ingest: structured data that is not an object\<close>

text \<open>
  Claim C5 at the inputs where the code departs from it. A body that is valid JSON but
  not an object (an array, a string, a number, \<^verbatim>\<open>null\<close>) parses, so \<^verbatim>\<open>json.loads\<close> raises
  nothing; \<^verbatim>\<open>data.get\<close> then raises \<^verbatim>\<open>AttributeError\<close>, which the inner
  \<^verbatim>\<open>except json.JSONDecodeError\<close> does not catch. The response is 500, not 400; nothing is
  enqueued.
\<close>

theorem json_non_object_is_server_error:
  assumes "sublist ''application/json'' (declared_content_type ev)"
      and "decode_body lib ev = Inr b"
      and "json_loads lib b = Inr data"
      and "\<forall>d. data \<noteq> JObj d"
  shows "ingest_lambda_handler lib uuid send_fails ev q =
           (\<lparr>statusCode = 500, response_body = ''Internal Server Error''\<rparr>, q)"
proof -
  have "scenario lib uuid (lower_keys (case headers ev of None \<Rightarrow> [] | Some h \<Rightarrow> h)) b =
          json_scenario lib uuid b"
    using assms(1) by (simp add: scenario_def declared_content_type_def)
  moreover have "json_scenario lib uuid b = Raise AttributeError"
    using assms(3,4) by (cases data) (simp_all add: json_scenario_def)
  ultimately show ?thesis
    by (simp add: ingest_after_decode [OF assms(2)])
qed

theorem json_non_object_is_server_error_witness:
  "sublist ''application/json'' (declared_content_type array_event)
   \<and> decode_body demo_lib array_event = Inr ''[1, 2]''
   \<and> json_loads demo_lib ''[1, 2]'' = Inr (JArr [JInt 1, JInt 2])
   \<and> (\<forall>d. JArr [JInt 1, JInt 2] \<noteq> JObj d)
   \<and> ingest_lambda_handler demo_lib demo_uuid queue_up array_event empty_sqs =
       (\<lparr>statusCode = 500, response_body = ''Internal Server Error''\<rparr>, empty_sqs)"
proof -
  have a: "sublist ''application/json'' (declared_content_type array_event)"
    by code_simp
  have b: "decode_body demo_lib array_event = Inr ''[1, 2]''"
    by (simp add: decode_body_def array_event_def)
  have c: "json_loads demo_lib ''[1, 2]'' = Inr (JArr [JInt 1, JInt 2])"
    by (simp add: demo_lib_def demo_loads_def)
  have d: "\<forall>d. JArr [JInt 1, JInt 2] \<noteq> JObj d"
    by simp
  from a b c d json_non_object_is_server_error [OF a b c d, of demo_uuid queue_up empty_sqs]
  show ?thesis
    by simp
qed

text \<open>The part of C5 that the code keeps: text that is not JSON is answered with 400,
  and nothing is enqueued.\<close>

lemma json_decode_error_is_rejected:
  assumes "sublist ''application/json'' (declared_content_type ev)"
      and "decode_body lib ev = Inr b"
      and "json_loads lib b = Inl JSONDecodeError"
  shows "ingest_lambda_handler lib uuid send_fails ev q =
           (\<lparr>statusCode = 400, response_body = ''Invalid JSON''\<rparr>, q)"
proof -
  have "scenario lib uuid (lower_keys (case headers ev of None \<Rightarrow> [] | Some h \<Rightarrow> h)) b =
          json_scenario lib uuid b"
    using assms(1) by (simp add: scenario_def declared_content_type_def)
  then show ?thesis
    using assms(3) by (simp add: ingest_after_decode [OF assms(2)] json_scenario_def)
qed


subsection \<open>Ingest: the envelope of a structured submission\<close>

text \<open>
  Claim C6. Take a submission whose declared content type contains
  \<^verbatim>\<open>application/json\<close> and whose (decoded) body parses to a JSON object \<open>d\<close>, and let the
  handler accept it (status 202). Then exactly one message was appended to the queue:
  the serialised envelope whose \<^verbatim>\<open>tenant_id\<close> and \<^verbatim>\<open>original_text\<close> are the submitted
  \<^verbatim>\<open>tenant_id\<close> and \<^verbatim>\<open>text\<close> (\<^verbatim>\<open>"unknown"\<close> and the empty string when the field is absent),
  whose \<^verbatim>\<open>log_id\<close> is the submitted \<^verbatim>\<open>log_id\<close> when present and the generated identifier
  otherwise (a UUID in text form, 36 characters, hence not empty), and whose \<^verbatim>\<open>source\<close> is
  \<^verbatim>\<open>json_upload\<close>. The body of the response is \<^verbatim>\<open>{"status": "accepted", "id": log_id}\<close>
  with that same \<^verbatim>\<open>log_id\<close>.
\<close>

theorem json_submission_envelope:
  assumes ct: "sublist ''application/json'' (declared_content_type ev)"
      and dec: "decode_body lib ev = Inr b"
      and obj: "json_loads lib b = Inr (JObj d)"
      and uuid: "length uuid = 36"
      and acc: "statusCode (fst (ingest_lambda_handler lib uuid send_fails ev q)) = 202"
  shows "\<exists>t l x.
           snd (ingest_lambda_handler lib uuid send_fails ev q) =
             q\<lparr>queue := queue q @
                  [json_dumps lib (JObj
                     [(''tenant_id'', t), (''log_id'', l), (''original_text'', x),
                      (''source'', JStr ''json_upload'')])],
               send_calls := send_calls q + 1\<rparr>
         \<and> fst (ingest_lambda_handler lib uuid send_fails ev q) =
             \<lparr>statusCode = 202,
              response_body = json_dumps lib (JObj [(''status'', JStr ''accepted''), (''id'', l)])\<rparr>
         \<and> t = (case map_of d ''tenant_id'' of None \<Rightarrow> JStr ''unknown'' | Some v \<Rightarrow> v)
         \<and> x = (case map_of d ''text'' of None \<Rightarrow> JStr [] | Some v \<Rightarrow> v)
         \<and> l = (case map_of d ''log_id'' of None \<Rightarrow> JStr uuid | Some v \<Rightarrow> v)
         \<and> (map_of d ''log_id'' = None \<longrightarrow> l = JStr uuid \<and> uuid \<noteq> [])"
proof -
  have sc: "scenario lib uuid (lower_keys (case headers ev of None \<Rightarrow> [] | Some h \<Rightarrow> h)) b =
          json_scenario lib uuid b"
    using ct by (simp add: scenario_def declared_content_type_def)
  have ne: "uuid \<noteq> []"
    using uuid by auto
  show ?thesis
    using acc ne
    by (simp add: ingest_after_decode [OF dec] sc json_scenario_def obj envelope_json_def
          dict_get_def split: if_splits)
qed

text \<open>The first example of the spec: the submission
  \<^verbatim>\<open>{"tenant_id":"acme","text":"hello","log_id":"abc"}\<close> under \<^verbatim>\<open>application/json\<close>.\<close>

theorem json_submission_envelope_witness:
  \<open>sublist ''application/json'' (declared_content_type json_event)
   \<and> decode_body demo_lib json_event =
       Inr ''{"tenant_id":"acme","text":"hello","log_id":"abc"}''
   \<and> json_loads demo_lib ''{"tenant_id":"acme","text":"hello","log_id":"abc"}'' =
       Inr (JObj [(''tenant_id'', JStr ''acme''), (''text'', JStr ''hello''),
                  (''log_id'', JStr ''abc'')])
   \<and> length demo_uuid = 36
   \<and> ingest_lambda_handler demo_lib demo_uuid queue_up json_event empty_sqs =
     (\<lparr>statusCode = 202, response_body = ''{"status": "accepted", "id": "abc"}''\<rparr>,
      \<lparr>queue = [''{"tenant_id": "acme", "log_id": "abc", "original_text": "hello", "source": "json_upload"}''],
       send_calls = 1\<rparr>)\<close>
proof -
  have a: "sublist ''application/json'' (declared_content_type json_event)"
    by code_simp
  have b: \<open>decode_body demo_lib json_event =
       Inr ''{"tenant_id":"acme","text":"hello","log_id":"abc"}''\<close>
    by (simp add: decode_body_def json_event_def)
  have c: \<open>json_loads demo_lib ''{"tenant_id":"acme","text":"hello","log_id":"abc"}'' =
       Inr (JObj [(''tenant_id'', JStr ''acme''), (''text'', JStr ''hello''),
                  (''log_id'', JStr ''abc'')])\<close>
    by (simp add: demo_lib_def demo_loads_def)
  have u: "length demo_uuid = 36"
    by (simp add: demo_uuid_def)
  have f: "statusCode (fst (ingest_lambda_handler demo_lib demo_uuid queue_up json_event
             empty_sqs)) = 202"
    by (simp add: run_json_event)
  from a b c u run_json_event json_submission_envelope [OF a b c u f]
  show ?thesis
    by simp
qed


subsection \<open>Ingest: the envelope of a plain-text submission\<close>

text \<open>
  Claim C7. Take a submission whose declared content type contains \<^verbatim>\<open>text/plain\<close> and not
  \<^verbatim>\<open>application/json\<close>, and let the handler accept it. Then exactly one message was
  appended to the queue: the serialised envelope whose \<^verbatim>\<open>tenant_id\<close> is the value of the
  header named \<^verbatim>\<open>x-tenant-id\<close> in any casing (\<open>header_ci\<close>), or \<^verbatim>\<open>"unknown"\<close> when there is
  none, whose \<^verbatim>\<open>original_text\<close> is the decoded body \<open>b\<close> (the body itself when the event is
  not flagged as base64-encoded), whose \<^verbatim>\<open>log_id\<close> is the generated identifier and whose
  \<^verbatim>\<open>source\<close> is \<^verbatim>\<open>text_upload\<close>. The casing of the header names has no effect at all:
  two header lists that agree once the names are put in lower case give the same
  response and the same queue.
\<close>

theorem text_submission_envelope:
  assumes nj: "\<not> sublist ''application/json'' (declared_content_type ev)"
      and tp: "sublist ''text/plain'' (declared_content_type ev)"
      and hs: "headers ev = Some hs"
      and dec: "decode_body lib ev = Inr b"
      and acc: "statusCode (fst (ingest_lambda_handler lib uuid send_fails ev q)) = 202"
  shows "snd (ingest_lambda_handler lib uuid send_fails ev q) =
           q\<lparr>queue := queue q @
                [json_dumps lib (JObj
                   [(''tenant_id'',
                       JStr (case header_ci hs ''x-tenant-id'' of
                               None \<Rightarrow> ''unknown'' | Some v \<Rightarrow> v)),
                    (''log_id'', JStr uuid),
                    (''original_text'', JStr b),
                    (''source'', JStr ''text_upload'')])],
             send_calls := send_calls q + 1\<rparr>
         \<and> (isBase64Encoded ev \<noteq> Some True \<longrightarrow>
              b = (case body ev of None \<Rightarrow> [] | Some s \<Rightarrow> s))
         \<and> (isBase64Encoded ev = Some True \<longrightarrow>
              b64decode_utf8 lib (case body ev of None \<Rightarrow> [] | Some s \<Rightarrow> s) = Inr b)
         \<and> (\<forall>hs'. map (\<lambda>(k, v). (lower k, v)) hs' = map (\<lambda>(k, v). (lower k, v)) hs \<longrightarrow>
              ingest_lambda_handler lib uuid send_fails (ev\<lparr>headers := Some hs'\<rparr>) q =
              ingest_lambda_handler lib uuid send_fails ev q)"
proof -
  have sc: "scenario lib uuid (lower_keys (case headers ev of None \<Rightarrow> [] | Some h \<Rightarrow> h)) b =
          text_scenario uuid (header_ci hs) b"
    using nj tp hs by (simp add: scenario_def declared_content_type_def lower_keys_header_ci)
  have q: "snd (ingest_lambda_handler lib uuid send_fails ev q) =
           q\<lparr>queue := queue q @
                [json_dumps lib (JObj
                   [(''tenant_id'',
                       JStr (case header_ci hs ''x-tenant-id'' of
                               None \<Rightarrow> ''unknown'' | Some v \<Rightarrow> v)),
                    (''log_id'', JStr uuid),
                    (''original_text'', JStr b),
                    (''source'', JStr ''text_upload'')])],
             send_calls := send_calls q + 1\<rparr>"
    using acc
    by (simp add: ingest_after_decode [OF dec] sc text_scenario_def envelope_json_def
          headers_get_def split: if_splits)
  have b: "(isBase64Encoded ev \<noteq> Some True \<longrightarrow>
              b = (case body ev of None \<Rightarrow> [] | Some s \<Rightarrow> s))
         \<and> (isBase64Encoded ev = Some True \<longrightarrow>
              b64decode_utf8 lib (case body ev of None \<Rightarrow> [] | Some s \<Rightarrow> s) = Inr b)"
    using dec by (auto simp: decode_body_def split: option.splits if_splits)
  have ev: "ev\<lparr>headers := Some hs\<rparr> = ev"
    using hs by simp
  have r: "\<forall>hs'. map (\<lambda>(k, v). (lower k, v)) hs' = map (\<lambda>(k, v). (lower k, v)) hs \<longrightarrow>
              ingest_lambda_handler lib uuid send_fails (ev\<lparr>headers := Some hs'\<rparr>) q =
              ingest_lambda_handler lib uuid send_fails ev q"
    using ingest_headers_only_lower [of _ hs lib uuid send_fails ev q] ev by simp
  from q b r show ?thesis
    by blast
qed

text \<open>The second example of the spec: the body \<^verbatim>\<open>hi there\<close> under \<^verbatim>\<open>Content-Type: text/plain\<close>
  and \<^verbatim>\<open>X-Tenant-Id: beta\<close>; the same headers written in upper case give the same result.\<close>

theorem text_submission_envelope_witness:
  \<open>\<not> sublist ''application/json'' (declared_content_type text_event)
   \<and> sublist ''text/plain'' (declared_content_type text_event)
   \<and> headers text_event = Some [(''Content-Type'', ''text/plain''), (''X-Tenant-Id'', ''beta'')]
   \<and> decode_body demo_lib text_event = Inr ''hi there''
   \<and> header_ci [(''Content-Type'', ''text/plain''), (''X-Tenant-Id'', ''beta'')] ''x-tenant-id'' =
       Some ''beta''
   \<and> ingest_lambda_handler demo_lib demo_uuid queue_up text_event empty_sqs =
     (\<lparr>statusCode = 202,
       response_body = ''{"status": "accepted", "id": "123e4567-e89b-42d3-a456-426614174000"}''\<rparr>,
      \<lparr>queue = [''{"tenant_id": "beta", "log_id": "123e4567-e89b-42d3-a456-426614174000", "original_text": "hi there", "source": "text_upload"}''],
       send_calls = 1\<rparr>)
   \<and> ingest_lambda_handler demo_lib demo_uuid queue_up
       (text_event\<lparr>headers := Some [(''CONTENT-TYPE'', ''text/plain''), (''X-TENANT-ID'', ''beta'')]\<rparr>)
       empty_sqs =
     ingest_lambda_handler demo_lib demo_uuid queue_up text_event empty_sqs\<close>
proof -
  let ?hs = "[(''Content-Type'', ''text/plain''), (''X-Tenant-Id'', ''beta'')]"
  let ?hs' = "[(''CONTENT-TYPE'', ''text/plain''), (''X-TENANT-ID'', ''beta'')]"
  have a: "\<not> sublist ''application/json'' (declared_content_type text_event)"
    by code_simp
  have b: "sublist ''text/plain'' (declared_content_type text_event)"
    by code_simp
  have c: "headers text_event = Some ?hs"
    by (simp add: text_event_def)
  have d: "decode_body demo_lib text_event = Inr ''hi there''"
    by (simp add: decode_body_def text_event_def)
  have e: "header_ci ?hs ''x-tenant-id'' = Some ''beta''"
    by code_simp
  have f: "statusCode (fst (ingest_lambda_handler demo_lib demo_uuid queue_up text_event
             empty_sqs)) = 202"
    by (simp add: run_text_event)
  have g: "map (\<lambda>(k, v). (lower k, v)) ?hs' = map (\<lambda>(k, v). (lower k, v)) ?hs"
    by code_simp
  from a b c d e g run_text_event text_submission_envelope [OF a b c d f]
  show ?thesis
    by simp
qed


subsection \<open>Ingest: when the queue is called\<close>

text \<open>
  Claim C8, as the code has it. For every submission the handler calls \<^verbatim>\<open>send_message\<close>
  at most once. A response 400 (unsupported content type, text that is not JSON) leaves
  the queue collaborator untouched, and so does every failure before the enqueue step
  (a body that cannot be decoded, any exception or early return of the classification):
  zero calls. Whenever the response is not 202, no message was added to the queue. A
  call is made only once the envelope \<open>m\<close> is fully built, with the serialised
  envelope as its argument; if that call itself raises, it has been made (one call),
  the response is 500 and the queue holds no new message.
\<close>

theorem enqueue_at_most_once:
  "send_calls (snd (ingest_lambda_handler lib uuid send_fails ev q)) \<le> send_calls q + 1
   \<and> (statusCode (fst (ingest_lambda_handler lib uuid send_fails ev q)) = 400 \<longrightarrow>
        snd (ingest_lambda_handler lib uuid send_fails ev q) = q)
   \<and> (statusCode (fst (ingest_lambda_handler lib uuid send_fails ev q)) \<noteq> 202 \<longrightarrow>
        queue (snd (ingest_lambda_handler lib uuid send_fails ev q)) = queue q)
   \<and> (statusCode (fst (ingest_lambda_handler lib uuid send_fails ev q)) = 202 \<longrightarrow>
        send_calls (snd (ingest_lambda_handler lib uuid send_fails ev q)) = send_calls q + 1)
   \<and> ((\<exists>e. decode_body lib ev = Inl e) \<longrightarrow>
        snd (ingest_lambda_handler lib uuid send_fails ev q) = q)
   \<and> ((\<exists>b. decode_body lib ev = Inr b
            \<and> (\<forall>m. scenario lib uuid
                      (lower_keys (case headers ev of None \<Rightarrow> [] | Some h \<Rightarrow> h)) b \<noteq>
                    Continue m)) \<longrightarrow>
        snd (ingest_lambda_handler lib uuid send_fails ev q) = q)
   \<and> (send_calls (snd (ingest_lambda_handler lib uuid send_fails ev q)) \<noteq> send_calls q \<longrightarrow>
        (\<exists>b m. decode_body lib ev = Inr b
            \<and> scenario lib uuid
                 (lower_keys (case headers ev of None \<Rightarrow> [] | Some h \<Rightarrow> h)) b = Continue m
            \<and> (if send_fails q (json_dumps lib (envelope_json m))
                then ingest_lambda_handler lib uuid send_fails ev q =
                       (\<lparr>statusCode = 500, response_body = ''Internal Server Error''\<rparr>,
                        q\<lparr>send_calls := send_calls q + 1\<rparr>)
                else statusCode (fst (ingest_lambda_handler lib uuid send_fails ev q)) = 202
                   \<and> snd (ingest_lambda_handler lib uuid send_fails ev q) =
                       q\<lparr>queue := queue q @ [json_dumps lib (envelope_json m)],
                         send_calls := send_calls q + 1\<rparr>)))"
proof (cases "decode_body lib ev")
  case (Inl e)
  then show ?thesis
    by (simp add: ingest_decode_raises)
next
  case (Inr b)
  show ?thesis
  proof (cases "scenario lib uuid (lower_keys (case headers ev of None \<Rightarrow> [] | Some h \<Rightarrow> h)) b")
    case (Raise e)
    then show ?thesis
      by (simp add: ingest_after_decode [OF Inr] Inr)
  next
    case (Return r)
    then show ?thesis
      using scenario_outcomes [OF Return]
      by (simp add: ingest_after_decode [OF Inr] Inr)
  next
    case (Continue m)
    then show ?thesis
      by (simp add: ingest_after_decode [OF Inr] Inr)
  qed
qed

text \<open>Three runs: an accepted submission (one call, one message), a submission with no
  content type (400, no call), and an undecodable body (500, no call).\<close>

theorem enqueue_at_most_once_witness:
  "statusCode (fst (ingest_lambda_handler demo_lib demo_uuid queue_up text_event empty_sqs)) = 202
   \<and> send_calls (snd (ingest_lambda_handler demo_lib demo_uuid queue_up text_event empty_sqs)) =
       send_calls empty_sqs + 1
   \<and> statusCode (fst (ingest_lambda_handler demo_lib demo_uuid queue_up no_type_event empty_sqs))
       = 400
   \<and> snd (ingest_lambda_handler demo_lib demo_uuid queue_up no_type_event empty_sqs) = empty_sqs
   \<and> decode_body demo_lib garbage_event = Inl Base64Error
   \<and> snd (ingest_lambda_handler demo_lib demo_uuid queue_up garbage_event empty_sqs) = empty_sqs"
proof -
  have a: "statusCode (fst (ingest_lambda_handler demo_lib demo_uuid queue_up text_event
             empty_sqs)) = 202"
    by (simp add: run_text_event)
  have b: "statusCode (fst (ingest_lambda_handler demo_lib demo_uuid queue_up no_type_event
             empty_sqs)) = 400"
    by (simp add: run_no_type_event)
  have c: "decode_body demo_lib garbage_event = Inl Base64Error"
    by code_simp
  from a b c
    enqueue_at_most_once [of demo_lib demo_uuid queue_up text_event empty_sqs]
    enqueue_at_most_once [of demo_lib demo_uuid queue_up no_type_event empty_sqs]
    enqueue_at_most_once [of demo_lib demo_uuid queue_up garbage_event empty_sqs]
  show ?thesis
    by simp
qed

text \<open>
  Claim C8 as stated gives the call count zero on every path that ends in an error. When
  the queue is unavailable, the accepted-looking submission of the spec's second example
  ends in the response 500 after one call of \<^verbatim>\<open>send_message\<close>.
\<close>

theorem enqueue_failure_counts_one_call:
  "statusCode (fst (ingest_lambda_handler demo_lib demo_uuid queue_down text_event empty_sqs))
     = 500
   \<and> send_calls (snd (ingest_lambda_handler demo_lib demo_uuid queue_down text_event empty_sqs))
     = 1
   \<and> send_calls empty_sqs = 0"
proof -
  have "send_calls empty_sqs = 0"
    by (simp add: empty_sqs_def)
  then show ?thesis
    by (simp add: run_text_event_queue_down)
qed


subsection \<open>Ingest: every enqueued envelope is well-formed\<close>

text \<open>
  Claim C9. Whatever the submission, either the response is not 202 and the queue holds
  the messages it held before, or the response is 202 and exactly one message was
  appended: the serialisation of a dict with the four keys \<^verbatim>\<open>tenant_id\<close>, \<^verbatim>\<open>log_id\<close>,
  \<^verbatim>\<open>original_text\<close> and \<^verbatim>\<open>source\<close>, where \<^verbatim>\<open>source\<close> is \<^verbatim>\<open>json_upload\<close> when the declared
  content type contains \<^verbatim>\<open>application/json\<close> and \<^verbatim>\<open>text_upload\<close> otherwise (the content type
  then contains \<^verbatim>\<open>text/plain\<close>).
\<close>

theorem enqueued_envelope_well_formed:
  "(statusCode (fst (ingest_lambda_handler lib uuid send_fails ev q)) \<noteq> 202
      \<and> queue (snd (ingest_lambda_handler lib uuid send_fails ev q)) = queue q)
   \<or> (statusCode (fst (ingest_lambda_handler lib uuid send_fails ev q)) = 202
      \<and> (\<exists>t l x s.
           queue (snd (ingest_lambda_handler lib uuid send_fails ev q)) =
             queue q @ [json_dumps lib (JObj
               [(''tenant_id'', t), (''log_id'', l), (''original_text'', x),
                (''source'', JStr s)])]
         \<and> (if sublist ''application/json'' (declared_content_type ev)
              then s = ''json_upload''
              else s = ''text_upload'' \<and> sublist ''text/plain'' (declared_content_type ev))))"
proof (cases "decode_body lib ev")
  case (Inl e)
  then show ?thesis
    by (simp add: ingest_decode_raises)
next
  case (Inr b)
  show ?thesis
    by (auto simp: ingest_after_decode [OF Inr] scenario_def json_scenario_def text_scenario_def
          declared_content_type_def envelope_json_def Let_def
          split: sum.splits json.splits)
qed

theorem enqueued_envelope_well_formed_witness:
  \<open>statusCode (fst (ingest_lambda_handler demo_lib demo_uuid queue_up json_event empty_sqs)) = 202
   \<and> sublist ''application/json'' (declared_content_type json_event)
   \<and> (\<exists>t l x s.
         queue (snd (ingest_lambda_handler demo_lib demo_uuid queue_up json_event empty_sqs)) =
           queue empty_sqs @ [json_dumps demo_lib (JObj
             [(''tenant_id'', t), (''log_id'', l), (''original_text'', x), (''source'', JStr s)])]
         \<and> s = ''json_upload'')
   \<and> queue (snd (ingest_lambda_handler demo_lib demo_uuid queue_up json_event empty_sqs)) =
       [''{"tenant_id": "acme", "log_id": "abc", "original_text": "hello", "source": "json_upload"}'']\<close>
proof -
  have a: "statusCode (fst (ingest_lambda_handler demo_lib demo_uuid queue_up json_event
             empty_sqs)) = 202"
    by (simp add: run_json_event)
  have b: "sublist ''application/json'' (declared_content_type json_event)"
    by code_simp
  have c: \<open>queue (snd (ingest_lambda_handler demo_lib demo_uuid queue_up json_event empty_sqs)) =
       [''{"tenant_id": "acme", "log_id": "abc", "original_text": "hello", "source": "json_upload"}'']\<close>
    by (simp add: run_json_event)
  have d: "\<exists>t l x s.
         queue (snd (ingest_lambda_handler demo_lib demo_uuid queue_up json_event empty_sqs)) =
           queue empty_sqs @ [json_dumps demo_lib (JObj
             [(''tenant_id'', t), (''log_id'', l), (''original_text'', x), (''source'', JStr s)])]
         \<and> s = ''json_upload''"
    using a b enqueued_envelope_well_formed [of demo_lib demo_uuid queue_up json_event empty_sqs]
    by auto
  from a b c d show ?thesis
    by blast
qed


subsection \<open>Ingest: classification by content type\<close>

text \<open>
  Claim C10. The declared content type is the value of the \<^verbatim>\<open>content-type\<close> header
  (looked up in lower case), the empty string when there is none. A value that
  contains \<^verbatim>\<open>application/json\<close> anywhere (\<open>ps\<close> before it, \<open>ss\<close> after it) takes the JSON
  scenario, also when it contains \<^verbatim>\<open>text/plain\<close> as well; a value that does not, and that
  contains \<^verbatim>\<open>text/plain\<close> anywhere, takes the plain-text scenario; with no
  \<^verbatim>\<open>content-type\<close> header the declared type is empty, the classification ends in the
  \<^verbatim>\<open>else\<close> branch, and the submission (its body decoded, which comes first) is rejected
  with 400 \<^verbatim>\<open>Unsupported Content-Type\<close>, the queue untouched.
\<close>

theorem content_type_classification:
  "(declared_content_type ev = ps @ ''application/json'' @ ss \<longrightarrow>
      scenario lib uuid (lower_keys (case headers ev of None \<Rightarrow> [] | Some h \<Rightarrow> h)) b =
        json_scenario lib uuid b)
   \<and> (\<not> sublist ''application/json'' (declared_content_type ev)
        \<and> declared_content_type ev = ps @ ''text/plain'' @ ss \<longrightarrow>
      scenario lib uuid (lower_keys (case headers ev of None \<Rightarrow> [] | Some h \<Rightarrow> h)) b =
        text_scenario uuid (lower_keys (case headers ev of None \<Rightarrow> [] | Some h \<Rightarrow> h)) b)
   \<and> (header_ci (case headers ev of None \<Rightarrow> [] | Some h \<Rightarrow> h) ''content-type'' = None \<longrightarrow>
        declared_content_type ev = []
      \<and> scenario lib uuid (lower_keys (case headers ev of None \<Rightarrow> [] | Some h \<Rightarrow> h)) b =
          Return \<lparr>statusCode = 400, response_body = ''Unsupported Content-Type''\<rparr>
      \<and> (decode_body lib ev = Inr b \<longrightarrow>
          ingest_lambda_handler lib uuid send_fails ev q =
            (\<lparr>statusCode = 400, response_body = ''Unsupported Content-Type''\<rparr>, q)))"
proof -
  have j: "declared_content_type ev = ps @ ''application/json'' @ ss \<Longrightarrow>
      scenario lib uuid (lower_keys (case headers ev of None \<Rightarrow> [] | Some h \<Rightarrow> h)) b =
        json_scenario lib uuid b"
    using sublist_appendI [of "''application/json''" ps ss]
    by (simp add: scenario_def declared_content_type_def del: sublist_appendI)
  have t: "\<not> sublist ''application/json'' (declared_content_type ev) \<Longrightarrow>
      declared_content_type ev = ps @ ''text/plain'' @ ss \<Longrightarrow>
      scenario lib uuid (lower_keys (case headers ev of None \<Rightarrow> [] | Some h \<Rightarrow> h)) b =
        text_scenario uuid (lower_keys (case headers ev of None \<Rightarrow> [] | Some h \<Rightarrow> h)) b"
    using sublist_appendI [of "''text/plain''" ps ss]
    by (simp add: scenario_def declared_content_type_def del: sublist_appendI)
  have e: "header_ci (case headers ev of None \<Rightarrow> [] | Some h \<Rightarrow> h) ''content-type'' = None \<Longrightarrow>
        declared_content_type ev = []"
    by (simp add: declared_content_type_def headers_get_def lower_keys_header_ci)
  have u: "declared_content_type ev = [] \<Longrightarrow>
      scenario lib uuid (lower_keys (case headers ev of None \<Rightarrow> [] | Some h \<Rightarrow> h)) b =
          Return \<lparr>statusCode = 400, response_body = ''Unsupported Content-Type''\<rparr>"
    by (simp add: scenario_def declared_content_type_def)
  have h: "declared_content_type ev = [] \<Longrightarrow> decode_body lib ev = Inr b \<Longrightarrow>
          ingest_lambda_handler lib uuid send_fails ev q =
            (\<lparr>statusCode = 400, response_body = ''Unsupported Content-Type''\<rparr>, q)"
    by (simp add: ingest_after_decode u)
  from j t e u h show ?thesis
    by blast
qed

text \<open>The content types \<^verbatim>\<open>application/json; charset=utf-8\<close> and
  \<^verbatim>\<open>text/plain, application/json\<close> take the JSON scenario, \<^verbatim>\<open>text/plain\<close> the plain-text one,
  and a submission with no \<^verbatim>\<open>content-type\<close> header is rejected.\<close>

theorem content_type_classification_witness:
  \<open>declared_content_type charset_event = [] @ ''application/json'' @ ''; charset=utf-8''
   \<and> scenario demo_lib demo_uuid
       (lower_keys (case headers charset_event of None \<Rightarrow> [] | Some h \<Rightarrow> h))
       ''{"tenant_id":"acme","text":"hello"}'' =
     json_scenario demo_lib demo_uuid ''{"tenant_id":"acme","text":"hello"}''
   \<and> declared_content_type both_types_event = ''text/plain, '' @ ''application/json'' @ []
   \<and> scenario demo_lib demo_uuid
       (lower_keys (case headers both_types_event of None \<Rightarrow> [] | Some h \<Rightarrow> h))
       ''{"tenant_id":"acme","text":"hello"}'' =
     json_scenario demo_lib demo_uuid ''{"tenant_id":"acme","text":"hello"}''
   \<and> \<not> sublist ''application/json'' (declared_content_type text_event)
   \<and> declared_content_type text_event = [] @ ''text/plain'' @ []
   \<and> scenario demo_lib demo_uuid
       (lower_keys (case headers text_event of None \<Rightarrow> [] | Some h \<Rightarrow> h)) ''hi there'' =
     text_scenario demo_uuid
       (lower_keys (case headers text_event of None \<Rightarrow> [] | Some h \<Rightarrow> h)) ''hi there''
   \<and> header_ci (case headers no_type_event of None \<Rightarrow> [] | Some h \<Rightarrow> h) ''content-type'' = None
   \<and> decode_body demo_lib no_type_event = Inr ''hi there''
   \<and> ingest_lambda_handler demo_lib demo_uuid queue_up no_type_event empty_sqs =
       (\<lparr>statusCode = 400, response_body = ''Unsupported Content-Type''\<rparr>, empty_sqs)\<close>
proof -
  have a: "declared_content_type charset_event = [] @ ''application/json'' @ ''; charset=utf-8''"
    by code_simp
  have b: "declared_content_type both_types_event = ''text/plain, '' @ ''application/json'' @ []"
    by code_simp
  have c: "\<not> sublist ''application/json'' (declared_content_type text_event)"
    by code_simp
  have d: "declared_content_type text_event = [] @ ''text/plain'' @ []"
    by code_simp
  have e: "header_ci (case headers no_type_event of None \<Rightarrow> [] | Some h \<Rightarrow> h) ''content-type'' =
       None"
    by code_simp
  have f: "decode_body demo_lib no_type_event = Inr ''hi there''"
    by (simp add: decode_body_def no_type_event_def)
  from a b c d e f
    content_type_classification [of charset_event "[]" "''; charset=utf-8''" demo_lib demo_uuid]
    content_type_classification [of both_types_event "''text/plain, ''" "[]" demo_lib demo_uuid]
    content_type_classification [of text_event "[]" "[]" demo_lib demo_uuid "''hi there''"]
    content_type_classification [of no_type_event _ _ demo_lib demo_uuid "''hi there''"
      queue_up empty_sqs]
  show ?thesis
    by blast
qed

subsection \<open>Worker: the binary64 product\<close>

text \<open>The bit length brackets its argument between two powers of two.\<close>

lemma bit_length_lower: "n \<noteq> 0 \<Longrightarrow> 2 ^ (bit_length n - 1) \<le> n"
proof (induction n rule: bit_length.induct)
  case (1 n)
  show ?case
  proof (cases "n div 2 = 0")
    case True
    with "1.prems" show ?thesis
      by (simp add: bit_length.simps [of n] bit_length.simps [of 0])
  next
    case False
    with "1.prems" "1.IH" have "2 ^ (bit_length (n div 2) - 1) \<le> n div 2"
      by simp
    moreover have "bit_length (n div 2) \<noteq> 0"
      using False by (simp add: bit_length.simps [of "n div 2"])
    ultimately have "2 ^ bit_length (n div 2) \<le> 2 * (n div 2)"
      by (cases "bit_length (n div 2)") simp_all
    then show ?thesis
      using "1.prems" by (simp add: bit_length.simps [of n])
  qed
qed

lemma bit_length_upper: "n < 2 ^ bit_length n"
proof (induction n rule: bit_length.induct)
  case (1 n)
  show ?case
  proof (cases "n = 0")
    case True
    then show ?thesis by simp
  next
    case False
    with "1.IH" have "n div 2 < 2 ^ bit_length (n div 2)"
      by simp
    then have "n < 2 * 2 ^ bit_length (n div 2)"
      by linarith
    then show ?thesis
      using False by (simp add: bit_length.simps [of n])
  qed
qed


text \<open>Rounding to 53 bits: the two cases of the definition.\<close>

lemma round53_small: "bit_length p \<le> 53 \<Longrightarrow> round53 p = p"
  by (simp add: round53_def)

lemma round53_large:
  assumes "\<not> bit_length p \<le> 53"
  shows "round53 p =
           (if p mod 2 ^ (bit_length p - 53) < 2 ^ (bit_length p - 54)
               \<or> (p mod 2 ^ (bit_length p - 53) = 2 ^ (bit_length p - 54)
                  \<and> even (p div 2 ^ (bit_length p - 53)))
            then p div 2 ^ (bit_length p - 53) else p div 2 ^ (bit_length p - 53) + 1)
           * 2 ^ (bit_length p - 53)"
proof -
  have "bit_length p - 53 - 1 = bit_length p - 54"
    by simp
  with assms show ?thesis
    by (simp add: round53_def Let_def)
qed

text \<open>Rounding never crosses a number that is itself representable, \<open>m * 2 ^ k\<close> with
  \<open>m < 2 ^ 53\<close>.\<close>

lemma grid_divides:
  assumes m: "m < 2 ^ 53" and big: "(2::nat) ^ (s + 52) \<le> m * 2 ^ k"
  shows "\<exists>j. m * 2 ^ k = j * 2 ^ s"
proof -
  have "s \<le> k"
  proof (rule ccontr)
    assume "\<not> s \<le> k"
    then have "k + 53 \<le> s + 52"
      by simp
    then have "(2::nat) ^ (k + 53) \<le> 2 ^ (s + 52)"
      by (rule power_increasing) simp
    also note big
    also have "m * 2 ^ k < 2 ^ 53 * 2 ^ k"
      using m by (rule mult_strict_right_mono) simp
    also have "(2::nat) ^ 53 * 2 ^ k = 2 ^ (k + 53)"
      by (simp only: power_add mult.commute)
    finally show False
      by simp
  qed
  then have "m * 2 ^ k = (m * 2 ^ (k - s)) * 2 ^ s"
    by (simp only: mult.assoc power_add [symmetric] le_add_diff_inverse2)
  then show ?thesis ..
qed

lemma bit_length_large:
  assumes "\<not> bit_length p \<le> 53"
  shows "2 ^ (bit_length p - 53 + 52) \<le> p"
proof -
  have p0: "p \<noteq> 0"
  proof
    assume "p = 0"
    then have "bit_length p = 0"
      by (simp add: bit_length.simps [of 0])
    with assms show False
      by simp
  qed
  have e: "bit_length p - 1 = bit_length p - 53 + 52"
    using assms by simp
  show ?thesis
    using bit_length_lower [OF p0] unfolding e .
qed

lemma round53_multiple:
  assumes "\<not> bit_length p \<le> 53"
  shows "round53 p = (p div 2 ^ (bit_length p - 53)) * 2 ^ (bit_length p - 53)
       \<or> (round53 p = (p div 2 ^ (bit_length p - 53) + 1) * 2 ^ (bit_length p - 53)
          \<and> p mod 2 ^ (bit_length p - 53) \<noteq> 0)"
proof (cases "p mod 2 ^ (bit_length p - 53) < 2 ^ (bit_length p - 54)
               \<or> (p mod 2 ^ (bit_length p - 53) = 2 ^ (bit_length p - 54)
                  \<and> even (p div 2 ^ (bit_length p - 53)))")
  case True
  then have "round53 p = (p div 2 ^ (bit_length p - 53)) * 2 ^ (bit_length p - 53)"
    unfolding round53_large [OF assms] by (simp only: if_True)
  then show ?thesis ..
next
  case False
  then have a: "round53 p = (p div 2 ^ (bit_length p - 53) + 1) * 2 ^ (bit_length p - 53)"
    unfolding round53_large [OF assms] by (simp only: if_False)
  have "(0::nat) < 2 ^ (bit_length p - 54)"
    by simp
  with False have "p mod 2 ^ (bit_length p - 53) \<noteq> 0"
    by linarith
  with a show ?thesis
    by blast
qed

lemma round53_le:
  assumes m: "m < 2 ^ 53" and le: "p \<le> m * 2 ^ k"
  shows "round53 p \<le> m * 2 ^ k"
proof (cases "bit_length p \<le> 53")
  case True
  with le show ?thesis
    by (simp only: round53_small)
next
  case False
  define s where "s = bit_length p - 53"
  have "(2::nat) ^ (s + 52) \<le> p"
    using bit_length_large [OF False] unfolding s_def .
  with le have "(2::nat) ^ (s + 52) \<le> m * 2 ^ k"
    by (rule order_trans [rotated])
  from grid_divides [OF m this] obtain j where j: "m * 2 ^ k = j * 2 ^ s" ..
  have split: "p = (p div 2 ^ s) * 2 ^ s + p mod 2 ^ s"
    by (rule div_mult_mod_eq [symmetric])
  have down: "(p div 2 ^ s) * 2 ^ s \<le> j * 2 ^ s"
    using le split unfolding j by linarith
  have up: "(p div 2 ^ s + 1) * 2 ^ s \<le> j * 2 ^ s" if r: "p mod 2 ^ s \<noteq> 0"
  proof -
    have "(p div 2 ^ s) * 2 ^ s < j * 2 ^ s"
      using le split r unfolding j by linarith
    then have "p div 2 ^ s < j"
      by (rule mult_less_cancel2 [THEN iffD1, THEN conjunct2])
    then have "p div 2 ^ s + 1 \<le> j"
      by simp
    then show ?thesis
      by (rule mult_le_mono1)
  qed
  from round53_multiple [OF False] show ?thesis
    unfolding s_def [symmetric] j using down up by presburger
qed

lemma round53_ge:
  assumes m: "m < 2 ^ 53" and ge: "m * 2 ^ k \<le> p"
  shows "m * 2 ^ k \<le> round53 p"
proof (cases "bit_length p \<le> 53")
  case True
  with ge show ?thesis
    by (simp only: round53_small)
next
  case False
  define s where "s = bit_length p - 53"
  have big: "(2::nat) ^ (s + 52) \<le> p"
    using bit_length_large [OF False] unfolding s_def .
  have split: "p = (p div 2 ^ s) * 2 ^ s + p mod 2 ^ s"
    by (rule div_mult_mod_eq [symmetric])
  have down: "m * 2 ^ k \<le> (p div 2 ^ s) * 2 ^ s"
  proof (cases "(2::nat) ^ (s + 52) \<le> m * 2 ^ k")
    case True
    from grid_divides [OF m this] obtain j where j: "m * 2 ^ k = j * 2 ^ s" ..
    have "j * 2 ^ s \<le> p"
      using ge unfolding j .
    then have "j \<le> p div 2 ^ s"
      by (simp only: less_eq_div_iff_mult_less_eq zero_less_power zero_less_numeral)
    then show ?thesis
      unfolding j by (rule mult_le_mono1)
  next
    case False
    have "(2::nat) ^ 52 * 2 ^ s \<le> p"
      using big by (simp only: power_add mult.commute)
    then have "2 ^ 52 \<le> p div 2 ^ s"
      by (simp only: less_eq_div_iff_mult_less_eq zero_less_power zero_less_numeral)
    then have "(2::nat) ^ 52 * 2 ^ s \<le> (p div 2 ^ s) * 2 ^ s"
      by (rule mult_le_mono1)
    moreover have "m * 2 ^ k < 2 ^ 52 * 2 ^ s"
      using False by (simp only: power_add mult.commute not_le)
    ultimately show ?thesis
      by linarith
  qed
  have "(p div 2 ^ s) * 2 ^ s \<le> round53 p"
    using round53_multiple [OF \<open>\<not> bit_length p \<le> 53\<close>] unfolding s_def [symmetric]
    by (auto simp del: mult_Suc)
  with down show ?thesis
    by (rule order_trans)
qed


text \<open>Evaluation on numerals, and the product on both sides of the cap.\<close>

lemma bit_length_numeral: "bit_length (numeral k) = Suc (bit_length (numeral k div 2))"
  by (simp add: bit_length.simps [of "numeral k"])

lemma bit_length_0: "bit_length 0 = 0"
  by (simp add: bit_length.simps [of 0])

lemma bit_length_1: "bit_length (Suc 0) = 1"
  by (simp add: bit_length.simps [of "Suc 0"] bit_length.simps [of 0])

lemma round53_exact:
  assumes "n < 2 ^ 53"
  shows "round53 n = n"
proof -
  have "round53 n \<le> n * 2 ^ 0"
    using assms by (rule round53_le) simp
  moreover have "n * 2 ^ 0 \<le> round53 n"
    using assms by (rule round53_ge) simp
  ultimately show ?thesis
    by simp
qed

lemma round53_at_cap: "round53 (16000 * 3602879701896397) = 25 * 2 ^ 61"
  by (simp add: round53_def Let_def bit_length_numeral bit_length_0 bit_length_1)

lemma product_within_cap:
  assumes "n \<le> 16000"
  shows "round53 (round53 n * 3602879701896397) \<le> 25 * 2 ^ 61"
proof -
  have n: "round53 n = n"
    using assms by (intro round53_exact) simp
  show ?thesis
  proof (cases "n = 16000")
    case True
    have "round53 (n * 3602879701896397) = 25 * 2 ^ 61"
      unfolding True by (rule round53_at_cap)
    then show ?thesis
      by (simp only: n order_refl)
  next
    case False
    with assms have "n \<le> 15999"
      by simp
    then have "n * 3602879701896397 \<le> 15999 * 3602879701896397"
      by (rule mult_le_mono1)
    also have "(15999::nat) * 3602879701896397 \<le> 25 * 2 ^ 61"
      by simp
    finally have "round53 (n * 3602879701896397) \<le> 25 * 2 ^ 61"
      by (intro round53_le) simp_all
    then show ?thesis
      by (simp only: n)
  qed
qed

lemma product_beyond_cap:
  assumes "16000 < n"
  shows "25 * 2 ^ 61 < round53 (round53 n * 3602879701896397)"
proof -
  have "16001 * 2 ^ 0 \<le> round53 n"
    using assms by (intro round53_ge) simp_all
  then have "16001 \<le> round53 n"
    by simp
  then have "16001 * 3602879701896397 \<le> round53 n * 3602879701896397"
    by (rule mult_le_mono1)
  moreover have "(25 * 2 ^ 48 + 1) * 2 ^ 13 \<le> (16001::nat) * 3602879701896397"
    by simp
  ultimately have "(25 * 2 ^ 48 + 1) * 2 ^ 13 \<le> round53 n * 3602879701896397"
    by (rule order_trans [rotated])
  then have "(25 * 2 ^ 48 + 1) * 2 ^ 13 \<le> round53 (round53 n * 3602879701896397)"
    by (intro round53_ge) simp_all
  moreover have "(25::nat) * 2 ^ 61 < (25 * 2 ^ 48 + 1) * 2 ^ 13"
    by simp
  ultimately show ?thesis
    by (rule less_le_trans [rotated])
qed

lemma cap_decision: "(len_times_unit_cost n \<le> 800) = (n \<le> 16000)"
proof (cases "n \<le> 16000")
  case True
  from product_within_cap [OF True]
  have "rat_of_nat (round53 (round53 n * 3602879701896397)) \<le> rat_of_nat (25 * 2 ^ 61)"
    by (simp only: of_nat_le_iff)
  then have "len_times_unit_cost n \<le> 800"
    by (simp add: len_times_unit_cost_def divide_le_eq)
  with True show ?thesis
    by simp
next
  case False
  then have "16000 < n"
    by simp
  from product_beyond_cap [OF this]
  have "rat_of_nat (25 * 2 ^ 61) < rat_of_nat (round53 (round53 n * 3602879701896397))"
    by (simp only: of_nat_less_iff)
  then have "800 < len_times_unit_cost n"
    by (simp add: len_times_unit_cost_def less_divide_eq)
  with False show ?thesis
    by simp
qed

lemma cap_decision_exact: "(len_times_unit_cost n \<le> 800) = (rat_of_nat n * 0.05 \<le> 800)"
  by (simp add: cap_decision)

lemma sleep_time_cases:
  "sleep_time n = (if n \<le> 16000 then len_times_unit_cost n else 800)"
  using cap_decision [of n] by (simp add: sleep_time_def Let_def not_le [symmetric])

lemma sleep_time_bounds: "0 \<le> sleep_time n \<and> sleep_time n \<le> 800"
  by (simp add: sleep_time_def Let_def len_times_unit_cost_def not_less)

lemma sleep_time_8: "sleep_time 8 = 3602879701896397 / 9007199254740992"
  by (simp add: sleep_time_def len_times_unit_cost_def round53_def Let_def
        bit_length_numeral bit_length_0 bit_length_1)

lemma sleep_time_5: "sleep_time 5 = 1 / 4"
  by (simp add: sleep_time_def len_times_unit_cost_def round53_def Let_def
        bit_length_numeral bit_length_0 bit_length_1)

lemma sleep_time_20000: "sleep_time 20000 = 800"
  by (simp add: sleep_time_cases)


text \<open>The relative error of one rounding is at most \<open>2 ^ - 53\<close>.\<close>

lemma round53_error:
  "2 ^ 53 * round53 p \<le> (2 ^ 53 + 1) * p \<and> (2 ^ 53 - 1) * p \<le> 2 ^ 53 * round53 p"
proof (cases "bit_length p \<le> 53")
  case True
  then show ?thesis
    by (simp add: round53_small)
next
  case False
  define s where "s = bit_length p - 53"
  define h :: nat where "h = 2 ^ (bit_length p - 54)"
  define x where "x = (p div 2 ^ s) * 2 ^ s"
  define r where "r = p mod 2 ^ s"
  have "bit_length p - 53 = Suc (bit_length p - 54)"
    using False by simp
  then have sh: "(2::nat) ^ s = 2 * h"
    by (simp add: s_def h_def)
  have e: "bit_length p - 53 + 52 = bit_length p - 54 + 53"
    using False by simp
  have "(2::nat) ^ (bit_length p - 54 + 53) \<le> p"
    using bit_length_large [OF False] unfolding e .
  then have "h * 2 ^ 53 \<le> p"
    unfolding h_def power_add .
  then have big: "9007199254740992 * h \<le> p"
    by simp
  have split: "p = x + r"
    unfolding x_def r_def by (rule div_mult_mod_eq [symmetric])
  have rlt: "r < 2 * h"
    unfolding r_def sh [symmetric] by simp
  have up: "(p div 2 ^ s + 1) * 2 ^ s = x + 2 * h"
    by (simp add: x_def sh [symmetric])
  have rp: "round53 p =
      (if r < h \<or> (r = h \<and> even (p div 2 ^ s)) then p div 2 ^ s else p div 2 ^ s + 1) * 2 ^ s"
    unfolding round53_large [OF False] s_def r_def h_def ..
  have res: "(round53 p = x \<and> r \<le> h) \<or> (round53 p = x + 2 * h \<and> h \<le> r)"
  proof (cases "r < h \<or> (r = h \<and> even (p div 2 ^ s))")
    case True
    then have "round53 p = x"
      by (simp only: rp if_True x_def)
    moreover from True have "r \<le> h"
      by auto
    ultimately show ?thesis
      by blast
  next
    case False
    then have "round53 p = x + 2 * h"
      by (simp only: rp if_False up)
    moreover from False have "h \<le> r"
      by auto
    ultimately show ?thesis
      by blast
  qed
  have "9007199254740992 * round53 p \<le> 9007199254740993 * p
      \<and> 9007199254740991 * p \<le> 9007199254740992 * round53 p"
    using res big split rlt by linarith
  then show ?thesis
    by simp
qed


lemma product_accuracy:
  "\<bar>len_times_unit_cost n - rat_of_nat n * 0.05\<bar> \<le> rat_of_nat n * 0.05 / 2 ^ 51"
proof -
  define a where "a = rat_of_nat (round53 n)"
  define b where "b = rat_of_nat (round53 (round53 n * 3602879701896397))"
  define c where "c = rat_of_nat n"
  have "rat_of_nat (2 ^ 53 * round53 n) \<le> rat_of_nat ((2 ^ 53 + 1) * n)"
    and "rat_of_nat ((2 ^ 53 - 1) * n) \<le> rat_of_nat (2 ^ 53 * round53 n)"
    using round53_error [of n] by (simp_all only: of_nat_le_iff)
  then have a: "9007199254740992 * a \<le> 9007199254740993 * c"
    "9007199254740991 * c \<le> 9007199254740992 * a"
    by (simp_all add: a_def c_def)
  have "rat_of_nat (2 ^ 53 * round53 (round53 n * 3602879701896397)) \<le>
        rat_of_nat ((2 ^ 53 + 1) * (round53 n * 3602879701896397))"
    and "rat_of_nat ((2 ^ 53 - 1) * (round53 n * 3602879701896397)) \<le>
        rat_of_nat (2 ^ 53 * round53 (round53 n * 3602879701896397))"
    using round53_error [of "round53 n * 3602879701896397"] by (simp_all only: of_nat_le_iff)
  then have b: "9007199254740992 * b \<le> 9007199254740993 * (a * 3602879701896397)"
    "9007199254740991 * (a * 3602879701896397) \<le> 9007199254740992 * b"
    by (simp_all add: a_def b_def)
  have c: "0 \<le> c"
    by (simp add: c_def)
  have v: "len_times_unit_cost n = b / 72057594037927936"
    by (simp add: len_times_unit_cost_def b_def)
  have "b / 72057594037927936 - c * (1 / 20) \<le> c * (1 / 20) / 2251799813685248"
    using a b c by linarith
  moreover have "c * (1 / 20) - b / 72057594037927936 \<le> c * (1 / 20) / 2251799813685248"
    using a b c by linarith
  ultimately have "\<bar>b / 72057594037927936 - c * (1 / 20)\<bar> \<le> c * (1 / 20) / 2251799813685248"
    by (simp only: abs_le_iff minus_diff_eq)
  then show ?thesis
    by (simp add: v c_def)
qed


subsection \<open>Worker: one record\<close>

text \<open>What processing one record does to the world, case by case.\<close>

lemma process_record_not_json:
  "json_loads lib (record_body r) = Inl e \<Longrightarrow> process_record lib co w r = (w, Some e)"
  by (simp add: process_record_def)

lemma process_record_not_dict:
  "json_loads lib (record_body r) = Inr b \<Longrightarrow> \<forall>d. b \<noteq> JObj d \<Longrightarrow>
   process_record lib co w r = (w, Some AttributeError)"
  by (cases b) (simp_all add: process_record_def)

lemma process_record_dict:
  assumes "json_loads lib (record_body r) = Inr (JObj d)"
  shows "process_record lib co w r =
     (case py_len (dict_get d ''original_text'' (JStr [])) of
        Inl e \<Rightarrow> (w, Some e)
      | Inr n \<Rightarrow>
          (case preview lib (dict_get d ''original_text'' (JStr [])) of
             Inl e \<Rightarrow> (w\<lparr>sleeps := sleeps w @ [sleep_time n]\<rparr>, Some e)
           | Inr p \<Rightarrow>
               put_item co (w\<lparr>sleeps := sleeps w @ [sleep_time n], clock := clock w + 1\<rparr>)
                 \<lparr>tenant_id = dict_get d ''tenant_id'' JNull,
                  log_id = dict_get d ''log_id'' JNull,
                  original_text = dict_get d ''original_text'' (JStr []),
                  source = dict_get d ''source'' JNull,
                  modified_data = p @ ''... [REDACTED]'',
                  processed_at = utcnow co (clock w)\<rparr>))"
  using assms by (simp add: process_record_def Let_def split: sum.splits)

lemma process_record_sleeps:
  "sleeps (fst (process_record lib co w r)) = sleeps w
   \<or> (\<exists>n. sleeps (fst (process_record lib co w r)) = sleeps w @ [sleep_time n])"
proof (cases "json_loads lib (record_body r)")
  case (Inl e)
  then show ?thesis
    by (simp add: process_record_not_json)
next
  case (Inr b)
  show ?thesis
  proof (cases "\<exists>d. b = JObj d")
    case True
    then obtain d where "b = JObj d" ..
    with Inr show ?thesis
      by (auto simp: process_record_dict put_item_def split: sum.splits)
  next
    case False
    with Inr show ?thesis
      by (simp add: process_record_not_dict)
  qed
qed

lemma process_record_writes:
  "(snd (process_record lib co w r) \<noteq> None
      \<and> writes (fst (process_record lib co w r)) = writes w
      \<and> table (fst (process_record lib co w r)) = table w)
   \<or> (snd (process_record lib co w r) = None
      \<and> (\<exists>i. writes (fst (process_record lib co w r)) = writes w @ [i]
             \<and> table (fst (process_record lib co w r)) = (table w)(item_key i \<mapsto> i)))"
proof (cases "json_loads lib (record_body r)")
  case (Inl e)
  then show ?thesis
    by (simp add: process_record_not_json)
next
  case (Inr b)
  show ?thesis
  proof (cases "\<exists>d. b = JObj d")
    case True
    then obtain d where "b = JObj d" ..
    with Inr show ?thesis
      by (auto simp: process_record_dict put_item_def split: sum.splits)
  next
    case False
    with Inr show ?thesis
      by (simp add: process_record_not_dict)
  qed
qed


subsection \<open>Worker: the loop\<close>

lemma loop_failures_accumulate:
  "foldl (loop_step lib co) (w, fs) rs =
     (fst (foldl (loop_step lib co) (w, []) rs),
      fs @ snd (foldl (loop_step lib co) (w, []) rs))"
proof (induction rs arbitrary: w fs)
  case Nil
  show ?case by simp
next
  case (Cons r rs)
  obtain w' out where p: "process_record lib co w r = (w', out)"
    by (cases "process_record lib co w r")
  show ?case
  proof (cases out)
    case None
    with p show ?thesis
      using Cons.IH [of w' fs] Cons.IH [of w' "[]"] by (simp add: loop_step_def)
  next
    case (Some e)
    with p show ?thesis
      using Cons.IH [of w' "fs @ [messageId r]"] Cons.IH [of w' "[messageId r]"]
      by (simp add: loop_step_def)
  qed
qed

lemma handler_Nil: "worker_lambda_handler lib co w [] = (w, [])"
  by (simp add: worker_lambda_handler_def)

lemma handler_Cons:
  "worker_lambda_handler lib co w (r # rs) =
     (fst (worker_lambda_handler lib co (fst (process_record lib co w r)) rs),
      (if record_fails lib co w r then [messageId r] else []) @
        snd (worker_lambda_handler lib co (fst (process_record lib co w r)) rs))"
proof -
  obtain w' out where p: "process_record lib co w r = (w', out)"
    by (cases "process_record lib co w r")
  show ?thesis
    using loop_failures_accumulate [of lib co w' "[messageId r]" rs]
    by (cases out) (simp_all add: worker_lambda_handler_def loop_step_def p record_fails_def)
qed

lemma handler_append:
  "worker_lambda_handler lib co w (xs @ ys) =
     (fst (worker_lambda_handler lib co (fst (worker_lambda_handler lib co w xs)) ys),
      snd (worker_lambda_handler lib co w xs) @
        snd (worker_lambda_handler lib co (fst (worker_lambda_handler lib co w xs)) ys))"
  by (induction xs arbitrary: w) (simp_all add: handler_Nil handler_Cons)

lemma handler_failures:
  "snd (worker_lambda_handler lib co w rs) =
     map (messageId \<circ> fst)
       (filter (\<lambda>(r, wr). record_fails lib co wr r) (zip rs (worlds lib co w rs)))"
  by (induction rs arbitrary: w) (simp_all add: handler_Nil handler_Cons)

lemma handler_writes:
  "length (writes (fst (worker_lambda_handler lib co w rs))) =
     length (writes w) +
     length (filter (\<lambda>(r, wr). \<not> record_fails lib co wr r) (zip rs (worlds lib co w rs)))"
proof (induction rs arbitrary: w)
  case Nil
  show ?case by (simp add: handler_Nil)
next
  case (Cons r rs)
  have "length (writes (fst (process_record lib co w r))) =
          length (writes w) + (if record_fails lib co w r then 0 else 1)"
    using process_record_writes [of lib co w r] by (auto simp: record_fails_def)
  then show ?case
    using Cons.IH [of "fst (process_record lib co w r)"] by (simp add: handler_Cons)
qed

lemma handler_sleeps:
  "\<exists>ts. sleeps (fst (worker_lambda_handler lib co w rs)) = sleeps w @ ts
        \<and> length ts \<le> length rs
        \<and> (\<forall>t \<in> set ts. 0 \<le> t \<and> t \<le> 800)"
proof (induction rs arbitrary: w)
  case Nil
  show ?case by (simp add: handler_Nil)
next
  case (Cons r rs)
  obtain ts where ts: "sleeps (fst (worker_lambda_handler lib co
        (fst (process_record lib co w r)) rs)) = sleeps (fst (process_record lib co w r)) @ ts"
      "length ts \<le> length rs" "\<forall>t \<in> set ts. 0 \<le> t \<and> t \<le> 800"
    using Cons.IH by blast
  from process_record_sleeps [of lib co w r] show ?case
  proof
    assume "sleeps (fst (process_record lib co w r)) = sleeps w"
    with ts show ?thesis
      by (auto simp: handler_Cons)
  next
    assume "\<exists>n. sleeps (fst (process_record lib co w r)) = sleeps w @ [sleep_time n]"
    then obtain n where "sleeps (fst (process_record lib co w r)) = sleeps w @ [sleep_time n]" ..
    with ts have "sleeps (fst (worker_lambda_handler lib co w (r # rs))) =
        sleeps w @ (sleep_time n # ts)"
      by (simp add: handler_Cons)
    moreover have "\<forall>t \<in> set (sleep_time n # ts). 0 \<le> t \<and> t \<le> 800"
      using ts(3) sleep_time_bounds [of n] by simp
    moreover have "length (sleep_time n # ts) \<le> length (r # rs)"
      using ts(2) by simp
    ultimately show ?thesis
      by blast
  qed
qed


lemma process_record_blocking:
  "sleeps (fst (process_record lib co w r)) = sleeps w @ blocking_of lib r"
proof (cases "json_loads lib (record_body r)")
  case (Inl e)
  then show ?thesis
    by (simp add: process_record_not_json blocking_of_def)
next
  case (Inr b)
  show ?thesis
  proof (cases "\<exists>d. b = JObj d")
    case True
    then obtain d where "b = JObj d" ..
    with Inr show ?thesis
      by (auto simp: process_record_dict put_item_def blocking_of_def split: sum.splits)
  next
    case False
    with Inr have "blocking_of lib r = []"
      by (cases b) (simp_all add: blocking_of_def)
    with Inr False show ?thesis
      by (simp add: process_record_not_dict)
  qed
qed

lemma handler_blocking:
  "sleeps (fst (worker_lambda_handler lib co w rs)) =
     sleeps w @ concat (map (blocking_of lib) rs)"
  by (induction rs arbitrary: w)
    (simp_all add: handler_Nil handler_Cons process_record_blocking)

lemma blocking_of_bounds:
  "length (blocking_of lib r) \<le> 1 \<and> (\<forall>t \<in> set (blocking_of lib r). 0 \<le> t \<and> t \<le> 800)"
  using sleep_time_bounds
  by (auto simp: blocking_of_def split: sum.splits json.splits)

lemma handler_single:
  "worker_lambda_handler lib co w [r] =
     (fst (process_record lib co w r), if record_fails lib co w r then [messageId r] else [])"
  by (simp add: handler_Cons handler_Nil)

lemma valid_message_no_failure:
  "valid_message lib co r \<Longrightarrow> \<not> record_fails lib co w r"
  by (simp add: valid_message_def)

lemma undeserialisable_fails:
  "json_loads lib (record_body r) = Inl e \<Longrightarrow> record_fails lib co w r"
  by (simp add: record_fails_def process_record_not_json)

text \<open>The runs of the worker on the example batch.\<close>

lemma loads_acme_record:
  "json_loads demo_lib (record_body acme_record) =
     Inr (JObj [(''tenant_id'', JStr ''acme''), (''log_id'', JStr ''abc''),
                (''original_text'', JStr ''hello''), (''source'', JStr ''json_upload'')])"
  by (simp add: demo_lib_def demo_loads_def acme_record_def)

lemma loads_beta_record:
  "json_loads demo_lib (record_body beta_record) =
     Inr (JObj [(''tenant_id'', JStr ''beta''), (''log_id'', JStr ''u-1''),
                (''original_text'', JStr ''hi there''), (''source'', JStr ''text_upload'')])"
  by (simp add: demo_lib_def demo_loads_def beta_record_def)

lemma loads_bad_record:
  "json_loads demo_lib (record_body bad_record) = Inl JSONDecodeError"
  by (simp add: demo_lib_def demo_loads_def bad_record_def)

lemma demo_put_item_succeeds: "put_fails demo_co w i = False"
  by (simp add: demo_co_def)

lemma bad_record_id: "messageId bad_record = ''m-1''"
  by (simp add: bad_record_def)

lemma demo_utcnow:
  "utcnow demo_co n =
     ''2024-01-01T00:00:0'' @ (if n = 0 then ''0'' else if n = 1 then ''1'' else ''2'')"
  by (simp add: demo_co_def)

lemma run_acme_record:
  "process_record demo_lib demo_co w acme_record =
     (w\<lparr>sleeps := sleeps w @ [sleep_time (length ''hello'')], clock := clock w + 1,
        table := (table w)((JStr ''acme'', JStr ''abc'') \<mapsto>
          \<lparr>tenant_id = JStr ''acme'', log_id = JStr ''abc'',
           original_text = JStr ''hello'', source = JStr ''json_upload'',
           modified_data = ''hello... [REDACTED]'',
           processed_at = utcnow demo_co (clock w)\<rparr>),
        writes := writes w @
          [\<lparr>tenant_id = JStr ''acme'', log_id = JStr ''abc'',
            original_text = JStr ''hello'', source = JStr ''json_upload'',
            modified_data = ''hello... [REDACTED]'',
            processed_at = utcnow demo_co (clock w)\<rparr>]\<rparr>,
      None)"
  by (simp add: process_record_dict [OF loads_acme_record] dict_get_def put_item_def
        item_key_def demo_put_item_succeeds)

lemma run_beta_record:
  "process_record demo_lib demo_co w beta_record =
     (w\<lparr>sleeps := sleeps w @ [sleep_time (length ''hi there'')], clock := clock w + 1,
        table := (table w)((JStr ''beta'', JStr ''u-1'') \<mapsto>
          \<lparr>tenant_id = JStr ''beta'', log_id = JStr ''u-1'',
           original_text = JStr ''hi there'', source = JStr ''text_upload'',
           modified_data = ''hi there... [REDACTED]'',
           processed_at = utcnow demo_co (clock w)\<rparr>),
        writes := writes w @
          [\<lparr>tenant_id = JStr ''beta'', log_id = JStr ''u-1'',
            original_text = JStr ''hi there'', source = JStr ''text_upload'',
            modified_data = ''hi there... [REDACTED]'',
            processed_at = utcnow demo_co (clock w)\<rparr>]\<rparr>,
      None)"
  by (simp add: process_record_dict [OF loads_beta_record] dict_get_def put_item_def
        item_key_def demo_put_item_succeeds)

lemma run_acme_redelivered:
  "process_record demo_lib demo_co w acme_redelivered =
     process_record demo_lib demo_co w acme_record"
  by (simp add: process_record_def acme_redelivered_def)

lemma run_batch_failures:
  "snd (worker_lambda_handler demo_lib demo_co empty_world [acme_record, bad_record, beta_record])
     = [''m-1'']"
  by (simp add: handler_Cons handler_Nil record_fails_def run_acme_record run_beta_record
        process_record_not_json [OF loads_bad_record] bad_record_id)

lemma run_batch_writes:
  "map item_key (writes (fst (worker_lambda_handler demo_lib demo_co empty_world
       [acme_record, bad_record, beta_record]))) =
     [(JStr ''acme'', JStr ''abc''), (JStr ''beta'', JStr ''u-1'')]"
  by (simp add: handler_Cons handler_Nil run_acme_record run_beta_record
        process_record_not_json [OF loads_bad_record] empty_world_def item_key_def)


subsection \<open>Worker: failures are isolated\<close>

text \<open>
  Claim C1. For every batch \<open>rs\<close> and every world \<open>w\<close> the handler starts in:
  \<^item> the returned list \<^verbatim>\<open>batchItemFailures\<close> holds exactly the \<^verbatim>\<open>messageId\<close>s of the records
    whose processing failed (the body is not JSON, the body is not an envelope, the
    processing raises, or \<^verbatim>\<open>put_item\<close> raises) in the world in which the loop reaches
    them, in the order of the batch;
  \<^item> every other record was upserted: the number of successful \<^verbatim>\<open>put_item\<close> calls is the
    number of the records that did not fail;
  \<^item> a failure stops nothing: a batch \<open>xs @ ys\<close> is processed as \<open>xs\<close> followed by \<open>ys\<close>
    from the world \<open>xs\<close> left, whatever failed in \<open>xs\<close>;
  \<^item> in particular a batch of one message whose body does not deserialise and two valid
    messages, in any order, yields one failure, the bad message's, and two upserts.
\<close>

theorem batch_failure_isolation:
  "snd (worker_lambda_handler lib co w rs) =
     map (messageId \<circ> fst)
       (filter (\<lambda>(r, wr). record_fails lib co wr r) (zip rs (worlds lib co w rs)))
   \<and> length (writes (fst (worker_lambda_handler lib co w rs))) =
       length (writes w) +
       length (filter (\<lambda>(r, wr). \<not> record_fails lib co wr r) (zip rs (worlds lib co w rs)))
   \<and> worker_lambda_handler lib co w (xs @ ys) =
       (fst (worker_lambda_handler lib co (fst (worker_lambda_handler lib co w xs)) ys),
        snd (worker_lambda_handler lib co w xs) @
          snd (worker_lambda_handler lib co (fst (worker_lambda_handler lib co w xs)) ys))
   \<and> ((\<exists>e. json_loads lib (record_body bad) = Inl e)
        \<and> valid_message lib co v1 \<and> valid_message lib co v2
        \<and> (rs = [bad, v1, v2] \<or> rs = [v1, bad, v2] \<or> rs = [v1, v2, bad]) \<longrightarrow>
        snd (worker_lambda_handler lib co w rs) = [messageId bad]
        \<and> length (snd (worker_lambda_handler lib co w rs)) = 1
        \<and> length (writes (fst (worker_lambda_handler lib co w rs))) = length (writes w) + 2)"
proof -
  have example: "snd (worker_lambda_handler lib co w rs) = [messageId bad]
        \<and> length (snd (worker_lambda_handler lib co w rs)) = 1
        \<and> length (writes (fst (worker_lambda_handler lib co w rs))) = length (writes w) + 2"
    if bad: "json_loads lib (record_body bad) = Inl e"
      and v1: "valid_message lib co v1" and v2: "valid_message lib co v2"
      and rs: "rs = [bad, v1, v2] \<or> rs = [v1, bad, v2] \<or> rs = [v1, v2, bad]"
    for e
  proof -
    have f: "\<And>w'. record_fails lib co w' bad"
      using bad by (rule undeserialisable_fails)
    have g: "\<And>w'. \<not> record_fails lib co w' v1" "\<And>w'. \<not> record_fails lib co w' v2"
      using v1 v2 by (simp_all add: valid_message_no_failure)
    from rs show ?thesis
      using handler_writes [of lib co w rs]
      by (auto simp: handler_Cons handler_Nil f g)
  qed
  from handler_failures [of lib co w rs] handler_writes [of lib co w rs]
    handler_append [of lib co w xs ys] example
  show ?thesis
    by blast
qed

text \<open>The batch of the example: the first envelope, a cut-off body, the second envelope.\<close>

theorem batch_failure_isolation_witness:
  "json_loads demo_lib (record_body bad_record) = Inl JSONDecodeError
   \<and> valid_message demo_lib demo_co acme_record
   \<and> valid_message demo_lib demo_co beta_record
   \<and> snd (worker_lambda_handler demo_lib demo_co empty_world
            [acme_record, bad_record, beta_record]) = [messageId bad_record]
   \<and> messageId bad_record = ''m-1''
   \<and> length (writes (fst (worker_lambda_handler demo_lib demo_co empty_world
            [acme_record, bad_record, beta_record]))) = length (writes empty_world) + 2
   \<and> map item_key (writes (fst (worker_lambda_handler demo_lib demo_co empty_world
            [acme_record, bad_record, beta_record]))) =
       [(JStr ''acme'', JStr ''abc''), (JStr ''beta'', JStr ''u-1'')]"
proof -
  have a: "json_loads demo_lib (record_body bad_record) = Inl JSONDecodeError"
    by (simp add: demo_lib_def demo_loads_def bad_record_def)
  have b: "valid_message demo_lib demo_co acme_record"
    by (simp add: valid_message_def record_fails_def process_record_dict [OF loads_acme_record]
          dict_get_def put_item_def demo_co_def)
  have c: "valid_message demo_lib demo_co beta_record"
    by (simp add: valid_message_def record_fails_def process_record_dict [OF loads_beta_record]
          dict_get_def put_item_def demo_co_def)
  have d: "messageId bad_record = ''m-1''"
    by (simp add: bad_record_def)
  from a b c d run_batch_writes
    batch_failure_isolation [of demo_lib demo_co empty_world
      "[acme_record, bad_record, beta_record]" "[]" "[]" bad_record acme_record beta_record]
  show ?thesis
    by blast
qed


subsection \<open>Worker: redelivery overwrites\<close>

text \<open>A record that is an envelope and is processed without failure in \<open>w\<close> wrote one
  item under the envelope's key; the item is the envelope's but for the time stamp.\<close>

lemma process_record_success:
  assumes env: "json_loads lib (record_body r) = Inr (JObj d)"
      and ok: "\<not> record_fails lib co w r"
  shows "\<exists>p. preview lib (dict_get d ''original_text'' (JStr [])) = Inr p
          \<and> table (fst (process_record lib co w r)) =
              (table w)(envelope_key d \<mapsto>
                \<lparr>tenant_id = dict_get d ''tenant_id'' JNull,
                 log_id = dict_get d ''log_id'' JNull,
                 original_text = dict_get d ''original_text'' (JStr []),
                 source = dict_get d ''source'' JNull,
                 modified_data = p @ ''... [REDACTED]'',
                 processed_at = utcnow co (clock w)\<rparr>)
          \<and> writes (fst (process_record lib co w r)) = writes w @
                [\<lparr>tenant_id = dict_get d ''tenant_id'' JNull,
                  log_id = dict_get d ''log_id'' JNull,
                  original_text = dict_get d ''original_text'' (JStr []),
                  source = dict_get d ''source'' JNull,
                  modified_data = p @ ''... [REDACTED]'',
                  processed_at = utcnow co (clock w)\<rparr>]"
  using ok
  by (auto simp: record_fails_def process_record_dict [OF env] put_item_def item_key_def
        envelope_key_def split: sum.splits if_splits)

text \<open>
  Claim C2. Let the same envelope be delivered twice: two records with the same body
  \<open>d\<close>, processed one after the other, in two invocations or in one batch, both without
  failure. Then both writes went to the key \<open>(tenant_id, log_id)\<close> of the envelope; after
  the second one the store holds one record under that key, the second item, which
  is the first one but for \<^verbatim>\<open>processed_at\<close>; no other key of the store changed, and
  the second delivery added no record: the store has as many records as after the
  first delivery (one more than before the first, when the key was new).
\<close>

theorem redelivery_overwrites:
  assumes same: "record_body r2 = record_body r1"
      and env: "json_loads lib (record_body r1) = Inr (JObj d)"
      and fin: "finite (dom (table w))"
      and ok1: "snd (worker_lambda_handler lib co w [r1]) = []"
      and ok2: "snd (worker_lambda_handler lib co
                  (fst (worker_lambda_handler lib co w [r1])) [r2]) = []"
  shows "\<exists>i1 i2.
           table (fst (worker_lambda_handler lib co w [r1])) = (table w)(envelope_key d \<mapsto> i1)
         \<and> table (fst (worker_lambda_handler lib co
                    (fst (worker_lambda_handler lib co w [r1])) [r2])) =
             (table w)(envelope_key d \<mapsto> i2)
         \<and> writes (fst (worker_lambda_handler lib co
                    (fst (worker_lambda_handler lib co w [r1])) [r2])) = writes w @ [i1, i2]
         \<and> item_key i1 = envelope_key d
         \<and> item_key i2 = envelope_key d
         \<and> i2 = i1\<lparr>processed_at := processed_at i2\<rparr>
         \<and> card (dom (table (fst (worker_lambda_handler lib co
                    (fst (worker_lambda_handler lib co w [r1])) [r2])))) =
             card (dom (table (fst (worker_lambda_handler lib co w [r1]))))
         \<and> card (dom (table (fst (worker_lambda_handler lib co
                    (fst (worker_lambda_handler lib co w [r1])) [r2])))) =
             (if envelope_key d \<in> dom (table w) then card (dom (table w))
              else card (dom (table w)) + 1)
         \<and> fst (worker_lambda_handler lib co w [r1, r2]) =
             fst (worker_lambda_handler lib co (fst (worker_lambda_handler lib co w [r1])) [r2])"
proof -
  let ?w1 = "fst (process_record lib co w r1)"
  let ?w2 = "fst (process_record lib co ?w1 r2)"
  have h1: "worker_lambda_handler lib co w [r1] = (?w1, [])" and n1: "\<not> record_fails lib co w r1"
    using ok1 by (auto simp: handler_single split: if_splits)
  have h2: "worker_lambda_handler lib co ?w1 [r2] = (?w2, [])"
    and n2: "\<not> record_fails lib co ?w1 r2"
    using ok2 by (auto simp: handler_single h1 split: if_splits)
  have env2: "json_loads lib (record_body r2) = Inr (JObj d)"
    using same env by simp
  from process_record_success [OF env n1] obtain p where
    p: "preview lib (dict_get d ''original_text'' (JStr [])) = Inr p"
    and t1: "table ?w1 = (table w)(envelope_key d \<mapsto>
                \<lparr>tenant_id = dict_get d ''tenant_id'' JNull,
                 log_id = dict_get d ''log_id'' JNull,
                 original_text = dict_get d ''original_text'' (JStr []),
                 source = dict_get d ''source'' JNull,
                 modified_data = p @ ''... [REDACTED]'',
                 processed_at = utcnow co (clock w)\<rparr>)"
    and w1: "writes ?w1 = writes w @
                [\<lparr>tenant_id = dict_get d ''tenant_id'' JNull,
                  log_id = dict_get d ''log_id'' JNull,
                  original_text = dict_get d ''original_text'' (JStr []),
                  source = dict_get d ''source'' JNull,
                  modified_data = p @ ''... [REDACTED]'',
                  processed_at = utcnow co (clock w)\<rparr>]"
    by blast
  from process_record_success [OF env2 n2] p have
    t2: "table ?w2 = (table ?w1)(envelope_key d \<mapsto>
                \<lparr>tenant_id = dict_get d ''tenant_id'' JNull,
                 log_id = dict_get d ''log_id'' JNull,
                 original_text = dict_get d ''original_text'' (JStr []),
                 source = dict_get d ''source'' JNull,
                 modified_data = p @ ''... [REDACTED]'',
                 processed_at = utcnow co (clock ?w1)\<rparr>)"
    and w2: "writes ?w2 = writes ?w1 @
                [\<lparr>tenant_id = dict_get d ''tenant_id'' JNull,
                  log_id = dict_get d ''log_id'' JNull,
                  original_text = dict_get d ''original_text'' (JStr []),
                  source = dict_get d ''source'' JNull,
                  modified_data = p @ ''... [REDACTED]'',
                  processed_at = utcnow co (clock ?w1)\<rparr>]"
    by auto
  let ?i1 = "\<lparr>tenant_id = dict_get d ''tenant_id'' JNull,
                 log_id = dict_get d ''log_id'' JNull,
                 original_text = dict_get d ''original_text'' (JStr []),
                 source = dict_get d ''source'' JNull,
                 modified_data = p @ ''... [REDACTED]'',
                 processed_at = utcnow co (clock w)\<rparr>"
  let ?i2 = "\<lparr>tenant_id = dict_get d ''tenant_id'' JNull,
                 log_id = dict_get d ''log_id'' JNull,
                 original_text = dict_get d ''original_text'' (JStr []),
                 source = dict_get d ''source'' JNull,
                 modified_data = p @ ''... [REDACTED]'',
                 processed_at = utcnow co (clock ?w1)\<rparr>"
  have a: "table ?w1 = (table w)(envelope_key d \<mapsto> ?i1)"
    by (rule t1)
  have b: "table ?w2 = (table w)(envelope_key d \<mapsto> ?i2)"
    by (simp add: t2 t1)
  have c: "writes ?w2 = writes w @ [?i1, ?i2]"
    by (simp add: w2 w1)
  have k: "item_key ?i1 = envelope_key d" "item_key ?i2 = envelope_key d"
    by (simp_all add: item_key_def envelope_key_def)
  have e: "?i2 = ?i1\<lparr>processed_at := processed_at ?i2\<rparr>"
    by simp
  have d1: "dom (table ?w1) = insert (envelope_key d) (dom (table w))"
    by (simp add: a)
  have d2: "dom (table ?w2) = insert (envelope_key d) (dom (table w))"
    by (simp add: b)
  have c1: "card (dom (table ?w2)) = card (dom (table ?w1))"
    by (simp add: d1 d2)
  have c2: "card (dom (table ?w2)) =
      (if envelope_key d \<in> dom (table w) then card (dom (table w))
       else card (dom (table w)) + 1)"
    using fin by (simp add: d2 insert_absorb)
  have both: "fst (worker_lambda_handler lib co w [r1, r2]) = ?w2"
    by (simp add: handler_Cons handler_Nil)
  from a b c k e c1 c2 both show ?thesis
    unfolding h1 h2 fst_conv by blast
qed

text \<open>The first envelope of the spec delivered twice, under two message ids, into an
  empty store.\<close>

theorem redelivery_overwrites_witness:
  "record_body acme_redelivered = record_body acme_record
   \<and> finite (dom (table empty_world))
   \<and> snd (worker_lambda_handler demo_lib demo_co empty_world [acme_record]) = []
   \<and> snd (worker_lambda_handler demo_lib demo_co
           (fst (worker_lambda_handler demo_lib demo_co empty_world [acme_record]))
           [acme_redelivered]) = []
   \<and> card (dom (table (fst (worker_lambda_handler demo_lib demo_co
           (fst (worker_lambda_handler demo_lib demo_co empty_world [acme_record]))
           [acme_redelivered])))) = 1
   \<and> table (fst (worker_lambda_handler demo_lib demo_co empty_world
           [acme_record, acme_redelivered])) (JStr ''acme'', JStr ''abc'') =
       Some \<lparr>tenant_id = JStr ''acme'', log_id = JStr ''abc'',
              original_text = JStr ''hello'', source = JStr ''json_upload'',
              modified_data = ''hello... [REDACTED]'',
              processed_at = ''2024-01-01T00:00:01''\<rparr>"
proof -
  have a: "record_body acme_redelivered = record_body acme_record"
    by (simp add: acme_redelivered_def)
  have b: "finite (dom (table empty_world))"
    by (simp add: empty_world_def)
  have c: "snd (worker_lambda_handler demo_lib demo_co empty_world [acme_record]) = []"
    by (simp add: handler_single record_fails_def run_acme_record)
  have d: "snd (worker_lambda_handler demo_lib demo_co
           (fst (worker_lambda_handler demo_lib demo_co empty_world [acme_record]))
           [acme_redelivered]) = []"
    by (simp add: handler_single record_fails_def run_acme_record run_acme_redelivered)
  have e: "envelope_key [(''tenant_id'', JStr ''acme''), (''log_id'', JStr ''abc''),
                (''original_text'', JStr ''hello''), (''source'', JStr ''json_upload'')]
            \<notin> dom (table empty_world)"
    by (simp add: empty_world_def)
  have f: "card (dom (table empty_world)) = 0"
    by (simp add: empty_world_def)
  have g: "table (fst (worker_lambda_handler demo_lib demo_co empty_world
           [acme_record, acme_redelivered])) (JStr ''acme'', JStr ''abc'') =
       Some \<lparr>tenant_id = JStr ''acme'', log_id = JStr ''abc'',
              original_text = JStr ''hello'', source = JStr ''json_upload'',
              modified_data = ''hello... [REDACTED]'',
              processed_at = ''2024-01-01T00:00:01''\<rparr>"
    by (simp add: handler_Cons handler_Nil run_acme_record run_acme_redelivered
          empty_world_def demo_utcnow)
  from redelivery_overwrites [OF a loads_acme_record b c d] e f
  have "card (dom (table (fst (worker_lambda_handler demo_lib demo_co
           (fst (worker_lambda_handler demo_lib demo_co empty_world [acme_record]))
           [acme_redelivered])))) = 1"
    by auto
  with a b c d g show ?thesis
    by blast
qed


subsection \<open>Worker: the simulated cost is capped\<close>

text \<open>
  Claim C3. When the body of a record is an envelope and \<^verbatim>\<open>len(original_text)\<close> is \<open>n\<close>
  (the number of characters when it is a string), processing the record blocks once:
  for the product \<^verbatim>\<open>len(text) * 0.05\<close> as Python computes it, in binary64, when that
  product is at most 800, and for 800 seconds otherwise. The computed product is at
  most 800 exactly when the exact product \<open>n \<times> 0.05\<close> is, that is when \<open>n \<le> 16000\<close>, and it
  differs from the exact product by at most the fraction \<open>2 ^ - 51\<close> of it. So the blocking
  time of a message is never negative and never above 800. For a whole batch the
  \<^verbatim>\<open>time.sleep\<close> calls are exactly these, one per record that is an envelope whose text
  has a length, in the order of the batch, whatever failed in between; each of them
  is within 0 and 800.
\<close>

theorem simulated_cost_is_capped:
  assumes env: "json_loads lib (record_body r) = Inr (JObj d)"
      and len: "py_len (dict_get d ''original_text'' (JStr [])) = Inr n"
  shows "sleeps (fst (process_record lib co w r)) =
           sleeps w @ [if len_times_unit_cost n \<le> 800 then len_times_unit_cost n else 800]
         \<and> (len_times_unit_cost n \<le> 800) = (of_nat n * 0.05 \<le> (800 :: rat))
         \<and> (len_times_unit_cost n \<le> 800) = (n \<le> 16000)
         \<and> \<bar>len_times_unit_cost n - of_nat n * 0.05\<bar> \<le> of_nat n * 0.05 / 2 ^ 51
         \<and> 0 \<le> sleep_time n \<and> sleep_time n \<le> 800
         \<and> (\<forall>s. dict_get d ''original_text'' (JStr []) = JStr s \<longrightarrow> n = length s)
         \<and> blocking_of lib r = [sleep_time n]
         \<and> sleeps (fst (worker_lambda_handler lib co w' rs)) =
             sleeps w' @ concat (map (blocking_of lib) rs)
         \<and> (\<forall>r' \<in> set rs. length (blocking_of lib r') \<le> 1
               \<and> (\<forall>t \<in> set (blocking_of lib r'). 0 \<le> t \<and> t \<le> 800))"
proof -
  have b: "blocking_of lib r = [sleep_time n]"
    using env len by (simp add: blocking_of_def)
  have c: "sleep_time n = (if len_times_unit_cost n \<le> 800 then len_times_unit_cost n else 800)"
    by (simp add: sleep_time_def Let_def not_less)
  have a: "sleeps (fst (process_record lib co w r)) =
           sleeps w @ [if len_times_unit_cost n \<le> 800 then len_times_unit_cost n else 800]"
    using process_record_blocking [of lib co w r] unfolding b c .
  have s: "\<forall>s. dict_get d ''original_text'' (JStr []) = JStr s \<longrightarrow> n = length s"
    using len by auto
  from a b s cap_decision_exact [of n] cap_decision [of n] product_accuracy [of n]
    sleep_time_bounds [of n] handler_blocking [of lib co w' rs] blocking_of_bounds [of lib]
  show ?thesis
    by blast
qed

text \<open>A text of eight characters blocks for the binary64 number \<^verbatim>\<open>8 * 0.05\<close>, which is
  \<open>3602879701896397 / 2 ^ 53\<close> and not two fifths; a text of five characters blocks for a
  quarter of a second; a text of 20000 characters, whose cost would be 1000 seconds,
  blocks for 800.\<close>

theorem simulated_cost_is_capped_witness:
  "json_loads long_lib (record_body long_record) =
     Inr (JObj [(''original_text'', JStr (replicate 20000 (CHR ''a'')))])
   \<and> py_len (dict_get [(''original_text'', JStr (replicate 20000 (CHR ''a'')))]
                ''original_text'' (JStr [])) = Inr 20000
   \<and> sleeps (fst (process_record long_lib demo_co empty_world long_record)) =
       sleeps empty_world @ [800]
   \<and> py_len (dict_get [(''tenant_id'', JStr ''beta''), (''log_id'', JStr ''u-1''),
                (''original_text'', JStr ''hi there''), (''source'', JStr ''text_upload'')]
                ''original_text'' (JStr [])) = Inr 8
   \<and> sleeps (fst (process_record demo_lib demo_co empty_world beta_record)) =
       sleeps empty_world @ [3602879701896397 / 9007199254740992]
   \<and> py_len (dict_get [(''tenant_id'', JStr ''acme''), (''log_id'', JStr ''abc''),
                (''original_text'', JStr ''hello''), (''source'', JStr ''json_upload'')]
                ''original_text'' (JStr [])) = Inr 5
   \<and> sleeps (fst (process_record demo_lib demo_co empty_world acme_record)) =
       sleeps empty_world @ [1 / 4]
   \<and> sleeps (fst (worker_lambda_handler demo_lib demo_co empty_world
         [acme_record, bad_record, beta_record])) =
       sleeps empty_world @ [1 / 4, 3602879701896397 / 9007199254740992]"
proof -
  have a: "json_loads long_lib (record_body long_record) =
     Inr (JObj [(''original_text'', JStr (replicate 20000 (CHR ''a'')))])"
    by (simp add: long_lib_def long_loads_def long_record_def)
  have b: "py_len (dict_get [(''original_text'', JStr (replicate 20000 (CHR ''a'')))]
                ''original_text'' (JStr [])) = Inr 20000"
    by (simp add: dict_get_def)
  have c: "py_len (dict_get [(''tenant_id'', JStr ''beta''), (''log_id'', JStr ''u-1''),
                (''original_text'', JStr ''hi there''), (''source'', JStr ''text_upload'')]
                ''original_text'' (JStr [])) = Inr 8"
    by (simp add: dict_get_def)
  have d: "py_len (dict_get [(''tenant_id'', JStr ''acme''), (''log_id'', JStr ''abc''),
                (''original_text'', JStr ''hello''), (''source'', JStr ''json_upload'')]
                ''original_text'' (JStr [])) = Inr 5"
    by (simp add: dict_get_def)
  have e: "blocking_of demo_lib bad_record = []"
    by (simp add: blocking_of_def loads_bad_record)
  have v: "\<not> len_times_unit_cost 20000 \<le> 800"
    "len_times_unit_cost 8 = 3602879701896397 / 9007199254740992"
    "len_times_unit_cost 5 = 1 / 4"
    by (simp_all add: cap_decision len_times_unit_cost_def round53_def Let_def
          bit_length_numeral bit_length_0 bit_length_1)
  have w: "sleep_time 8 = 3602879701896397 / 9007199254740992" "sleep_time 5 = 1 / 4"
    by (simp_all add: sleep_time_8 sleep_time_5)
  from a b c d
    simulated_cost_is_capped [OF a b, of demo_co empty_world]
    simulated_cost_is_capped [OF loads_beta_record c, of demo_co empty_world empty_world
      "[acme_record, bad_record, beta_record]"]
    simulated_cost_is_capped [OF loads_acme_record d, of demo_co empty_world]
  show ?thesis
    by (simp add: e v w)
qed

end
